theory Spec2Isabelle
  imports Complex_Main "HOL-Library.AList"
begin

section \<open>JavaScript values used by the viewer\<close>

text \<open>
  A JavaScript number is modelled as an exact real or \<open>NaN\<close>.  Rounding to
  IEEE doubles and the two infinities (the literal \<open>Infinity\<close>, overflow,
  division by zero) are outside the model: arithmetic on \<open>Num\<close> is exact, and
  every operation with a \<open>NaN\<close> operand gives \<open>NaN\<close>, comparisons with \<open>NaN\<close>
  are false.  The value \<open>undefined\<close>, when it flows into arithmetic, becomes
  \<open>NaN\<close> as in JavaScript.
\<close>

datatype jsnum = Num real | NaN

fun jadd :: "jsnum \<Rightarrow> jsnum \<Rightarrow> jsnum" where
  "jadd (Num a) (Num b) = Num (a + b)"
| "jadd _ _ = NaN"

fun jsub :: "jsnum \<Rightarrow> jsnum \<Rightarrow> jsnum" where
  "jsub (Num a) (Num b) = Num (a - b)"
| "jsub _ _ = NaN"

fun jmul :: "jsnum \<Rightarrow> jsnum \<Rightarrow> jsnum" where
  "jmul (Num a) (Num b) = Num (a * b)"
| "jmul _ _ = NaN"

text \<open>Division; the only call site divides by a number greater than 1 or by \<open>NaN\<close>.\<close>

fun jdiv :: "jsnum \<Rightarrow> jsnum \<Rightarrow> jsnum" where
  "jdiv (Num a) (Num b) = Num (a / b)"
| "jdiv _ _ = NaN"

fun jneg :: "jsnum \<Rightarrow> jsnum" where
  "jneg (Num a) = Num (- a)"
| "jneg NaN = NaN"

fun jlt :: "jsnum \<Rightarrow> jsnum \<Rightarrow> bool" where
  "jlt (Num a) (Num b) = (a < b)"
| "jlt _ _ = False"

fun jle :: "jsnum \<Rightarrow> jsnum \<Rightarrow> bool" where
  "jle (Num a) (Num b) = (a \<le> b)"
| "jle _ _ = False"

fun jcos :: "jsnum \<Rightarrow> jsnum" where
  "jcos (Num a) = Num (cos a)"
| "jcos NaN = NaN"

fun jsin :: "jsnum \<Rightarrow> jsnum" where
  "jsin (Num a) = Num (sin a)"
| "jsin NaN = NaN"

subsection \<open>Strings\<close>

text \<open>
  Text is a list of characters, each a code unit below 256.  White space is
  what \<open>String.prototype.trim\<close> and the regular expression class \<open>\s\<close>
  accept among these: tab, line feed, vertical tab, form feed, carriage
  return, space and the no-break space U+00A0.  (The white space characters
  above U+00FF cannot occur in such a text.)
\<close>

definition is_ws :: "char \<Rightarrow> bool" where
  "is_ws c = (c = CHR 0x09 \<or> c = CHR 0x0A \<or> c = CHR 0x0B \<or> c = CHR 0x0C
              \<or> c = CHR 0x0D \<or> c = CHR '' '' \<or> c = CHR 0xA0)"

definition is_digit :: "char \<Rightarrow> bool" where
  "is_digit c = (of_char c \<ge> (48::nat) \<and> of_char c \<le> (57::nat))"

definition digit_val :: "char \<Rightarrow> nat" where
  "digit_val c = of_char c - 48"

text \<open>\<open>s.trim()\<close>\<close>

definition trim :: "string \<Rightarrow> string" where
  "trim s = rev (dropWhile is_ws (rev (dropWhile is_ws s)))"

text \<open>\<open>s.split('\n')\<close>: always at least one piece.\<close>

fun split_nl :: "string \<Rightarrow> string list" where
  "split_nl [] = [[]]"
| "split_nl (c # cs) =
     (if c = CHR 0x0A then [] # split_nl cs
      else (case split_nl cs of
              [] \<Rightarrow> [[c]]
            | w # ws \<Rightarrow> (c # w) # ws))"

text \<open>
  \<open>s.split(/\s+/)\<close>: a maximal run of white space is one separator; a
  separator at either end leaves an empty piece there.
\<close>

fun split_ws :: "string \<Rightarrow> string list" where
  "split_ws [] = [[]]"
| "split_ws (c # cs) =
     (if is_ws c then
        (if cs \<noteq> [] \<and> is_ws (hd cs) then split_ws cs else [] # split_ws cs)
      else (case split_ws cs of
              [] \<Rightarrow> [[c]]
            | w # ws \<Rightarrow> (c # w) # ws))"

text \<open>\<open>s.startsWith(p)\<close>\<close>

definition startsWith :: "string \<Rightarrow> string \<Rightarrow> bool" where
  "startsWith s p = (take (length p) s = p)"

text \<open>\<open>xs[i]\<close>, with \<open>None\<close> for \<open>undefined\<close>.\<close>

definition nth_opt :: "'a list \<Rightarrow> nat \<Rightarrow> 'a option" where
  "nth_opt xs i = (if i < length xs then Some (xs ! i) else None)"

text \<open>
  \<open>xs.slice(start, end)\<close> for a non-negative \<open>start\<close>; the end is a number:
  \<open>NaN\<close> counts as 0, a negative value counts from the end of the array.
\<close>

definition slice :: "'a list \<Rightarrow> nat \<Rightarrow> jsnum \<Rightarrow> 'a list" where
  "slice xs start fin =
     (let len = int (length xs);
          rel = (case fin of NaN \<Rightarrow> 0 | Num r \<Rightarrow> (if r < 0 then \<lceil>r\<rceil> else \<lfloor>r\<rfloor>));
          final = (if rel < 0 then max (len + rel) 0 else min rel len);
          k = min start (length xs)
      in take (nat final - k) (drop k xs))"

subsection \<open>parseInt and parseFloat\<close>

fun digits_val :: "nat \<Rightarrow> string \<Rightarrow> nat" where
  "digits_val acc [] = acc"
| "digits_val acc (c # cs) = digits_val (10 * acc + digit_val c) cs"

definition is_hex :: "char \<Rightarrow> bool" where
  "is_hex c = (is_digit c
     \<or> (of_char c \<ge> (65::nat) \<and> of_char c \<le> (70::nat))
     \<or> (of_char c \<ge> (97::nat) \<and> of_char c \<le> (102::nat)))"

definition hex_val :: "char \<Rightarrow> nat" where
  "hex_val c = (if is_digit c then of_char c - 48
                else if of_char c \<le> (70::nat) then of_char c - 55
                else of_char c - 87)"

fun hex_digits_val :: "nat \<Rightarrow> string \<Rightarrow> nat" where
  "hex_digits_val acc [] = acc"
| "hex_digits_val acc (c # cs) = hex_digits_val (16 * acc + hex_val c) cs"

text \<open>An optional sign: the factor and the rest of the string.\<close>

definition take_sign :: "string \<Rightarrow> real \<times> string" where
  "take_sign s = (case s of
       [] \<Rightarrow> (1, [])
     | c # cs \<Rightarrow> (if c = CHR ''-'' then (- 1, cs)
                 else if c = CHR ''+'' then (1, cs) else (1, s)))"

text \<open>
  \<open>parseInt(s)\<close> without a radix: leading white space, an optional sign, then
  hexadecimal digits after \<open>0x\<close> or \<open>0X\<close>, decimal digits otherwise; \<open>NaN\<close>
  when there is no digit.
\<close>

definition parseInt :: "string \<Rightarrow> jsnum" where
  "parseInt s =
     (let (sg, r) = take_sign (dropWhile is_ws s) in
      if startsWith r ''0x'' \<or> startsWith r ''0X'' then
        (let ds = takeWhile is_hex (drop 2 r) in
         if ds = [] then NaN else Num (sg * real (hex_digits_val 0 ds)))
      else
        (let ds = takeWhile is_digit r in
         if ds = [] then NaN else Num (sg * real (digits_val 0 ds))))"

text \<open>The exponent part \<open>e\<close>, \<open>e+\<close>, \<open>e-\<close> followed by digits, as a factor.\<close>

definition exponent_factor :: "string \<Rightarrow> real" where
  "exponent_factor s =
     (case s of
        [] \<Rightarrow> 1
      | c # cs \<Rightarrow>
          (if c = CHR ''e'' \<or> c = CHR ''E'' then
             (let (sg, r) = take_sign cs; ds = takeWhile is_digit r in
              if ds = [] then 1
              else if sg < 0 then 1 / 10 ^ digits_val 0 ds
              else 10 ^ digits_val 0 ds)
           else 1))"

text \<open>
  \<open>parseFloat(s)\<close>: leading white space, an optional sign, the longest
  prefix that is a decimal literal (digits, a fraction, an exponent); \<open>NaN\<close>
  when there is no digit.  The literal \<open>Infinity\<close> is read as \<open>NaN\<close> here
  (see the text on \<open>jsnum\<close>).
\<close>

definition parseFloat :: "string \<Rightarrow> jsnum" where
  "parseFloat s =
     (let (sg, r) = take_sign (dropWhile is_ws s);
          ip = takeWhile is_digit r;
          r1 = dropWhile is_digit r;
          hasdot = (r1 \<noteq> [] \<and> hd r1 = CHR ''.'');
          fp = (if hasdot then takeWhile is_digit (tl r1) else []);
          r2 = (if hasdot then dropWhile is_digit (tl r1) else r1)
      in if ip = [] \<and> fp = [] then NaN
         else Num (sg * (real (digits_val 0 ip) + real (digits_val 0 fp) / 10 ^ length fp)
                   * exponent_factor r2))"

text \<open>The argument may be \<open>undefined\<close>, whose string form has no digit.\<close>

definition parseFloat_opt :: "string option \<Rightarrow> jsnum" where
  "parseFloat_opt t = (case t of None \<Rightarrow> NaN | Some s \<Rightarrow> parseFloat s)"

definition parseInt_opt :: "string option \<Rightarrow> jsnum" where
  "parseInt_opt t = (case t of None \<Rightarrow> NaN | Some s \<Rightarrow> parseInt s)"

section \<open>BVHParser\<close>

text \<open>
  A joint of the tree as \<open>parseNode\<close> builds it.  \<open>name\<close> is \<open>None\<close> when
  the ROOT line has no second token (\<open>undefined\<close>).
\<close>

type_synonym vec3 = "jsnum \<times> jsnum \<times> jsnum"

datatype node = Node (name: "string option") (type: string) (offset: vec3)
                     (channels: "string list") (children: "node list")

datatype error =
    MissingHierarchy | UnexpectedEndOfFile | ExpectedOpenBrace
  | MissingMotion | InvalidFramesLine | InvalidFrameTimeLine | TypeError

record motionData =
  frameCount :: nat
  frameTime :: jsnum
  frames :: "jsnum list list"

record parseResult =
  p_skeleton :: node
  p_motionData :: motionData
  totalChannels :: jsnum

subsection \<open>parseHierarchy\<close>

text \<open>
  \<open>parseNode\<close> and the \<open>while\<close> loop of its body share the index into the
  array of lines.  Both take fuel: \<open>None\<close> means the fuel ran out, \<open>Some (Inl e)\<close>
  is a thrown error, \<open>Some (Inr (node, totalChannels, index))\<close> a normal return
  with the index after the call.
\<close>

definition set_offset :: "node \<Rightarrow> vec3 \<Rightarrow> node" where
  "set_offset n v = Node (name n) (type n) v (channels n) (children n)"

definition set_channels :: "node \<Rightarrow> string list \<Rightarrow> node" where
  "set_channels n cs = Node (name n) (type n) (offset n) cs (children n)"

definition push_child :: "node \<Rightarrow> node \<Rightarrow> node" where
  "push_child n c = Node (name n) (type n) (offset n) (channels n) (children n @ [c])"

fun parseNode :: "nat \<Rightarrow> string list \<Rightarrow> bool \<Rightarrow> nat \<Rightarrow> (error + node \<times> jsnum \<times> nat) option"
and parseBody :: "nat \<Rightarrow> string list \<Rightarrow> node \<Rightarrow> jsnum \<Rightarrow> nat \<Rightarrow> (error + node \<times> jsnum \<times> nat) option"
where
  "parseNode 0 lines isRoot index = None"
| "parseNode (Suc fuel) lines isRoot index =
     (if index \<ge> length lines then Some (Inl UnexpectedEndOfFile)
      else
        let parts = split_ws (lines ! index);
            nodeType = hd parts;
            nodeName = (if isRoot then nth_opt parts 1
                        else (case nth_opt parts 1 of
                                None \<Rightarrow> Some ''End Site''
                              | Some p \<Rightarrow> (if p = [] then Some ''End Site'' else Some p)))
        in
        if index + 1 \<ge> length lines then Some (Inl UnexpectedEndOfFile)
        else if lines ! (index + 1) \<noteq> ''{'' then Some (Inl ExpectedOpenBrace)
        else
          (case parseBody fuel lines (Node nodeName nodeType (Num 0, Num 0, Num 0) [] [])
                  (Num 0) (index + 2) of
             None \<Rightarrow> None
           | Some (Inl e) \<Rightarrow> Some (Inl e)
           | Some (Inr (node, totalCh, i)) \<Rightarrow>
               Some (Inr (node, totalCh,
                          (if nth_opt lines i = Some ''}'' then i + 1 else i)))))"
| "parseBody 0 lines node totalCh index = None"
| "parseBody (Suc fuel) lines node totalCh index =
     (if index < length lines \<and> lines ! index \<noteq> ''}'' then
        let currentLine = lines ! index in
        if startsWith currentLine ''OFFSET'' then
          (let offsetParts = split_ws currentLine in
           parseBody fuel lines
             (set_offset node (parseFloat_opt (nth_opt offsetParts 1),
                               parseFloat_opt (nth_opt offsetParts 2),
                               parseFloat_opt (nth_opt offsetParts 3)))
             totalCh (index + 1))
        else if startsWith currentLine ''CHANNELS'' then
          (let channelParts = split_ws currentLine;
               numChannels = parseInt_opt (nth_opt channelParts 1)
           in parseBody fuel lines
                (set_channels node (slice channelParts 2 (jadd (Num 2) numChannels)))
                (jadd totalCh numChannels) (index + 1))
        else if startsWith currentLine ''JOINT'' \<or> startsWith currentLine ''End Site'' then
          (case parseNode fuel lines False index of
             None \<Rightarrow> None
           | Some (Inl e) \<Rightarrow> Some (Inl e)
           | Some (Inr (child, childTotal, i)) \<Rightarrow>
               parseBody fuel lines (push_child node child) (jadd totalCh childTotal) i)
        else parseBody fuel lines node totalCh (index + 1)
      else Some (Inr (node, totalCh, index)))"

text \<open>
  Every step of either function moves the index forward, so twice the number
  of lines (and two more) is enough fuel for any input.
\<close>

definition parseHierarchy :: "string list \<Rightarrow> nat \<Rightarrow> (error + node \<times> jsnum \<times> nat) option" where
  "parseHierarchy lines startIndex = parseNode (2 * length lines + 2) lines True startIndex"

subsection \<open>parseMotion\<close>

text \<open>
  \<open>line.match(/Frames:\s*(\d+)/)\<close> and \<open>line.match(/Frame Time:\s*([\d.]+)/)\<close>:
  the leftmost place where the literal, any white space and a non-empty group
  follow each other; the result is the group.
\<close>

definition match_here :: "string \<Rightarrow> (char \<Rightarrow> bool) \<Rightarrow> string \<Rightarrow> string option" where
  "match_here lit grp s =
     (if startsWith s lit then
        (let g = takeWhile grp (dropWhile is_ws (drop (length lit) s)) in
         if g = [] then None else Some g)
      else None)"

fun regex_match :: "string \<Rightarrow> (char \<Rightarrow> bool) \<Rightarrow> string \<Rightarrow> string option" where
  "regex_match lit grp [] = match_here lit grp []"
| "regex_match lit grp (c # cs) =
     (case match_here lit grp (c # cs) of
        Some g \<Rightarrow> Some g
      | None \<Rightarrow> regex_match lit grp cs)"

definition is_digit_or_dot :: "char \<Rightarrow> bool" where
  "is_digit_or_dot c = (is_digit c \<or> c = CHR ''.'')"

text \<open>
  The \<open>for\<close> loop over the frames: it stops after \<open>frameCount\<close> lines or at
  the end of the input, whichever comes first.
\<close>

fun readFrames :: "nat \<Rightarrow> string list \<Rightarrow> jsnum list list" where
  "readFrames 0 ls = []"
| "readFrames (Suc n) [] = []"
| "readFrames (Suc n) (l # ls) = map parseFloat (split_ws l) # readFrames n ls"

text \<open>The number of iterations \<open>i < frameCount\<close> allows, counting from 0.\<close>

definition iterations :: "jsnum \<Rightarrow> nat" where
  "iterations c = (case c of NaN \<Rightarrow> 0 | Num r \<Rightarrow> nat \<lceil>r\<rceil>)"

definition parseMotion :: "string list \<Rightarrow> nat \<Rightarrow> error + motionData" where
  "parseMotion lines startIndex =
     (if startIndex \<ge> length lines then Inl UnexpectedEndOfFile
      else case regex_match ''Frames:'' is_digit (lines ! startIndex) of
        None \<Rightarrow> Inl InvalidFramesLine
      | Some fm \<Rightarrow>
          (let declared = parseInt fm in
           if startIndex + 1 \<ge> length lines then Inl UnexpectedEndOfFile
           else case regex_match ''Frame Time:'' is_digit_or_dot (lines ! (startIndex + 1)) of
             None \<Rightarrow> Inl InvalidFrameTimeLine
           | Some ft \<Rightarrow>
               (let fs = readFrames (iterations declared) (drop (startIndex + 2) lines)
                in Inr \<lparr> frameCount = length fs, frameTime = parseFloat ft, frames = fs \<rparr>)))"

subsection \<open>parse\<close>

text \<open>\<open>lines.findIndex(line => line === 'MOTION')\<close>\<close>

fun findIndex :: "('a \<Rightarrow> bool) \<Rightarrow> 'a list \<Rightarrow> nat option" where
  "findIndex P [] = None"
| "findIndex P (x # xs) =
     (if P x then Some 0 else map_option Suc (findIndex P xs))"

definition prepare :: "string \<Rightarrow> string list" where
  "prepare content = filter (\<lambda>line. line \<noteq> []) (map trim (split_nl content))"

definition parse :: "string \<Rightarrow> (error + parseResult) option" where
  "parse content =
     (let lines = prepare content in
      if nth_opt lines 0 \<noteq> Some ''HIERARCHY'' then Some (Inl MissingHierarchy)
      else case parseHierarchy lines 1 of
        None \<Rightarrow> None
      | Some (Inl e) \<Rightarrow> Some (Inl e)
      | Some (Inr (rootNode, totalCh, endIndex)) \<Rightarrow>
          (case findIndex (\<lambda>line. line = ''MOTION'') lines of
             None \<Rightarrow> Some (Inl MissingMotion)
           | Some motionIndex \<Rightarrow>
               (case parseMotion lines (motionIndex + 1) of
                  Inl e \<Rightarrow> Some (Inl e)
                | Inr md \<Rightarrow>
                    Some (Inr \<lparr> p_skeleton = rootNode, p_motionData = md,
                               totalChannels = totalCh \<rparr>))))"

section \<open>The part of three.js the viewer computes with\<close>

text \<open>
  three.js is a dependency, not code of the repository.  \<open>Matrix4\<close> is
  modelled from its documented behaviour: sixteen numbers, written here in
  row-major order as the arguments of \<open>Matrix4.set\<close>; \<open>multiplyMatrices\<close> is
  the matrix product; \<open>setFromMatrixPosition\<close> reads the fourth column.
\<close>

datatype mat4 = Mat4 jsnum jsnum jsnum jsnum  jsnum jsnum jsnum jsnum
                     jsnum jsnum jsnum jsnum  jsnum jsnum jsnum jsnum

definition identity :: mat4 where
  "identity = Mat4 (Num 1) (Num 0) (Num 0) (Num 0)  (Num 0) (Num 1) (Num 0) (Num 0)
                   (Num 0) (Num 0) (Num 1) (Num 0)  (Num 0) (Num 0) (Num 0) (Num 1)"

definition makeTranslation :: "jsnum \<Rightarrow> jsnum \<Rightarrow> jsnum \<Rightarrow> mat4" where
  "makeTranslation x y z =
     Mat4 (Num 1) (Num 0) (Num 0) x  (Num 0) (Num 1) (Num 0) y
          (Num 0) (Num 0) (Num 1) z  (Num 0) (Num 0) (Num 0) (Num 1)"

definition makeRotationX :: "jsnum \<Rightarrow> mat4" where
  "makeRotationX theta = (let c = jcos theta; s = jsin theta in
     Mat4 (Num 1) (Num 0) (Num 0) (Num 0)  (Num 0) c (jneg s) (Num 0)
          (Num 0) s c (Num 0)  (Num 0) (Num 0) (Num 0) (Num 1))"

definition makeRotationY :: "jsnum \<Rightarrow> mat4" where
  "makeRotationY theta = (let c = jcos theta; s = jsin theta in
     Mat4 c (Num 0) s (Num 0)  (Num 0) (Num 1) (Num 0) (Num 0)
          (jneg s) (Num 0) c (Num 0)  (Num 0) (Num 0) (Num 0) (Num 1))"

definition makeRotationZ :: "jsnum \<Rightarrow> mat4" where
  "makeRotationZ theta = (let c = jcos theta; s = jsin theta in
     Mat4 c (jneg s) (Num 0) (Num 0)  s c (Num 0) (Num 0)
          (Num 0) (Num 0) (Num 1) (Num 0)  (Num 0) (Num 0) (Num 0) (Num 1))"

fun multiplyMatrices :: "mat4 \<Rightarrow> mat4 \<Rightarrow> mat4" where
  "multiplyMatrices (Mat4 a11 a12 a13 a14 a21 a22 a23 a24 a31 a32 a33 a34 a41 a42 a43 a44)
                    (Mat4 b11 b12 b13 b14 b21 b22 b23 b24 b31 b32 b33 b34 b41 b42 b43 b44) =
   Mat4 (jadd (jadd (jadd (jmul (a11) (b11)) (jmul (a12) (b21))) (jmul (a13) (b31))) (jmul (a14) (b41)))
        (jadd (jadd (jadd (jmul (a11) (b12)) (jmul (a12) (b22))) (jmul (a13) (b32))) (jmul (a14) (b42)))
        (jadd (jadd (jadd (jmul (a11) (b13)) (jmul (a12) (b23))) (jmul (a13) (b33))) (jmul (a14) (b43)))
        (jadd (jadd (jadd (jmul (a11) (b14)) (jmul (a12) (b24))) (jmul (a13) (b34))) (jmul (a14) (b44)))
        (jadd (jadd (jadd (jmul (a21) (b11)) (jmul (a22) (b21))) (jmul (a23) (b31))) (jmul (a24) (b41)))
        (jadd (jadd (jadd (jmul (a21) (b12)) (jmul (a22) (b22))) (jmul (a23) (b32))) (jmul (a24) (b42)))
        (jadd (jadd (jadd (jmul (a21) (b13)) (jmul (a22) (b23))) (jmul (a23) (b33))) (jmul (a24) (b43)))
        (jadd (jadd (jadd (jmul (a21) (b14)) (jmul (a22) (b24))) (jmul (a23) (b34))) (jmul (a24) (b44)))
        (jadd (jadd (jadd (jmul (a31) (b11)) (jmul (a32) (b21))) (jmul (a33) (b31))) (jmul (a34) (b41)))
        (jadd (jadd (jadd (jmul (a31) (b12)) (jmul (a32) (b22))) (jmul (a33) (b32))) (jmul (a34) (b42)))
        (jadd (jadd (jadd (jmul (a31) (b13)) (jmul (a32) (b23))) (jmul (a33) (b33))) (jmul (a34) (b43)))
        (jadd (jadd (jadd (jmul (a31) (b14)) (jmul (a32) (b24))) (jmul (a33) (b34))) (jmul (a34) (b44)))
        (jadd (jadd (jadd (jmul (a41) (b11)) (jmul (a42) (b21))) (jmul (a43) (b31))) (jmul (a44) (b41)))
        (jadd (jadd (jadd (jmul (a41) (b12)) (jmul (a42) (b22))) (jmul (a43) (b32))) (jmul (a44) (b42)))
        (jadd (jadd (jadd (jmul (a41) (b13)) (jmul (a42) (b23))) (jmul (a43) (b33))) (jmul (a44) (b43)))
        (jadd (jadd (jadd (jmul (a41) (b14)) (jmul (a42) (b24))) (jmul (a43) (b34))) (jmul (a44) (b44)))"

definition setFromMatrixPosition :: "mat4 \<Rightarrow> vec3" where
  "setFromMatrixPosition m = (case m of
     Mat4 n11 n12 n13 n14 n21 n22 n23 n24 n31 n32 n33 n34 n41 n42 n43 n44 \<Rightarrow> (n14, n24, n34))"

text \<open>\<open>THREE.MathUtils.degToRad\<close>\<close>

definition degToRad :: "jsnum \<Rightarrow> jsnum" where
  "degToRad degrees = jmul degrees (Num (pi / 180))"

section \<open>BVHViewer\<close>

text \<open>
  The bone table \<open>this.bones\<close> is a JavaScript \<open>Map\<close>: keys in insertion
  order, \<open>set\<close> on a present key replaces the value in place.  The key of a
  joint is its name, which may be \<open>undefined\<close> (\<open>None\<close>).  Of a bone only the
  data is kept; the meshes, lines and materials drawn for it are not modelled,
  except the position of its sphere, which is what a frame evaluation writes.
\<close>

record bone =
  spherePosition :: vec3
  boneNode :: node
  boneChannels :: "string list"
  position :: vec3

type_synonym boneTable = "(string option \<times> bone) list"

definition vadd :: "vec3 \<Rightarrow> vec3 \<Rightarrow> vec3" where
  "vadd p q = (case p of (px, py, pz) \<Rightarrow> case q of (qx, qy, qz) \<Rightarrow>
                 (jadd px qx, jadd py qy, jadd pz qz))"

text \<open>The template string \<open>`EndSite_${n.name}`\<close>.\<close>

definition endSiteName :: "node \<Rightarrow> string option" where
  "endSiteName n = Some (''EndSite_'' @ (case name n of None \<Rightarrow> ''undefined'' | Some s \<Rightarrow> s))"

subsection \<open>createBonesFromBVH\<close>

text \<open>
  The recursion over the tree, with \<open>forEach\<close> over the children as the second
  function.  Reading \<open>parentNode.name\<close> of a \<open>null\<close> parent throws.
\<close>

fun createBonesFromBVH :: "node \<Rightarrow> node option \<Rightarrow> vec3 \<Rightarrow> boneTable \<Rightarrow> error + boneTable"
and createBonesForEach :: "node list \<Rightarrow> node \<Rightarrow> vec3 \<Rightarrow> boneTable \<Rightarrow> error + boneTable"
where
  "createBonesFromBVH (Node nm ty off chs cs) parentNode parentPos bs =
     (let node = Node nm ty off chs cs;
          pos = vadd parentPos off in
      if length chs > 0 \<and> ty \<noteq> ''End Site'' then
        createBonesForEach cs node pos
          (AList.update nm \<lparr> spherePosition = pos, boneNode = node,
                             boneChannels = chs, position = pos \<rparr> bs)
      else if ty = ''End Site'' then
        (case parentNode of
           None \<Rightarrow> Inl TypeError
         | Some p \<Rightarrow>
             createBonesForEach cs node pos
               (AList.update (endSiteName p) \<lparr> spherePosition = pos, boneNode = node,
                                  boneChannels = [], position = pos \<rparr> bs))
      else createBonesForEach cs node pos bs)"
| "createBonesForEach [] node pos bs = Inr bs"
| "createBonesForEach (c # cs) node pos bs =
     (case createBonesFromBVH c (Some node) pos bs of
        Inl e \<Rightarrow> Inl e
      | Inr bs' \<Rightarrow> createBonesForEach cs node pos bs')"

subsection \<open>updateFrame\<close>

text \<open>One pass of the channel loop body: the six \<open>if\<close> statements.\<close>

definition applyChannel :: "string \<Rightarrow> jsnum \<Rightarrow> mat4 \<Rightarrow> mat4" where
  "applyChannel channel v local =
     (if channel = ''Xposition'' then multiplyMatrices local (makeTranslation v (Num 0) (Num 0))
      else if channel = ''Yposition'' then multiplyMatrices local (makeTranslation (Num 0) v (Num 0))
      else if channel = ''Zposition'' then multiplyMatrices local (makeTranslation (Num 0) (Num 0) v)
      else if channel = ''Xrotation'' then multiplyMatrices local (makeRotationX (degToRad v))
      else if channel = ''Yrotation'' then multiplyMatrices local (makeRotationY (degToRad v))
      else if channel = ''Zrotation'' then multiplyMatrices local (makeRotationZ (degToRad v))
      else local)"

text \<open>
  \<open>frameData[channelIndex]\<close>: a read past the end of a frame gives
  \<open>undefined\<close>, which the matrix arithmetic turns into \<open>NaN\<close>.
\<close>

definition readValue :: "jsnum list \<Rightarrow> nat \<Rightarrow> jsnum" where
  "readValue fd i = (case nth_opt fd i of None \<Rightarrow> NaN | Some x \<Rightarrow> x)"

text \<open>
  The channel loop.  \<open>frameData\<close> is \<open>None\<close> when \<open>frames[frameIndex]\<close> is
  \<open>undefined\<close>: then the first read \<open>frameData[channelIndex++]\<close> throws a
  TypeError.
\<close>

fun applyChannels :: "jsnum list option \<Rightarrow> string list \<Rightarrow> mat4 \<Rightarrow> nat \<Rightarrow> error + mat4 \<times> nat" where
  "applyChannels frameData [] local channelIndex = Inr (local, channelIndex)"
| "applyChannels None (channel # rest) local channelIndex = Inl TypeError"
| "applyChannels (Some fd) (channel # rest) local channelIndex =
     applyChannels (Some fd) rest (applyChannel channel (readValue fd channelIndex) local)
       (channelIndex + 1)"

text \<open>
  The state one call of \<open>updateFrame\<close> threads through \<open>updateBone\<close>: the
  cursor \<open>channelIndex\<close>, the bone table and the map \<open>endSiteUpdates\<close>.
\<close>

record frameState =
  channelIndex :: nat
  bones :: boneTable
  endSiteUpdates :: "(string option \<times> vec3) list"

definition copyPosition :: "string option \<Rightarrow> vec3 \<Rightarrow> boneTable \<Rightarrow> boneTable" where
  "copyPosition k pos bs = AList.map_entry k (\<lambda>b. b\<lparr> spherePosition := pos \<rparr>) bs"

text \<open>The first \<open>forEach\<close> over the children: positions of the End Sites.\<close>

fun endSitePass :: "node \<Rightarrow> vec3 \<Rightarrow> node list \<Rightarrow> (string option \<times> vec3) list
                      \<Rightarrow> (string option \<times> vec3) list" where
  "endSitePass node pos [] ups = ups"
| "endSitePass node pos (child # rest) ups =
     endSitePass node pos rest
       (if type child = ''End Site''
        then AList.update (endSiteName node) (vadd pos (offset child)) ups
        else ups)"

fun updateBone :: "jsnum list option \<Rightarrow> node \<Rightarrow> mat4 \<Rightarrow> frameState \<Rightarrow> error + frameState"
and updateBoneForEach :: "jsnum list option \<Rightarrow> node list \<Rightarrow> mat4 \<Rightarrow> frameState \<Rightarrow> error + frameState"
where
  "updateBone frameData (Node nm ty off chs cs) parentTransform st =
     (case off of (ox, oy, oz) \<Rightarrow>
      case applyChannels frameData chs (makeTranslation ox oy oz) (channelIndex st) of
        Inl e \<Rightarrow> Inl e
      | Inr (local, ci) \<Rightarrow>
          (let world = multiplyMatrices parentTransform local;
               pos = setFromMatrixPosition world
           in updateBoneForEach frameData cs world
                \<lparr> channelIndex = ci,
                  bones = copyPosition nm pos (bones st),
                  endSiteUpdates = endSitePass (Node nm ty off chs cs) pos cs (endSiteUpdates st) \<rparr>))"
| "updateBoneForEach frameData [] world st = Inr st"
| "updateBoneForEach frameData (c # cs) world st =
     (case updateBone frameData c world st of
        Inl e \<Rightarrow> Inl e
      | Inr st' \<Rightarrow> updateBoneForEach frameData cs world st')"

text \<open>The last loop of \<open>updateFrame\<close>: the End Site positions go to their bones.\<close>

fun applyEndSiteUpdates :: "(string option \<times> vec3) list \<Rightarrow> boneTable \<Rightarrow> boneTable" where
  "applyEndSiteUpdates [] bs = bs"
| "applyEndSiteUpdates ((k, pos) # ups) bs = applyEndSiteUpdates ups (copyPosition k pos bs)"

text \<open>
  The fields of the viewer that parsing, frame evaluation and normalisation
  read or write.  \<open>skeleton\<close> and \<open>motionData\<close> are \<open>null\<close> before a file is
  loaded.  \<open>groupScale\<close> and \<open>groupPosition\<close> are the scale and position of
  \<open>skeletonGroup\<close>.
\<close>

record viewer =
  skeleton :: "node option"
  motionData :: "motionData option"
  boneTable :: boneTable
  skeletonScale :: jsnum
  groupScale :: jsnum
  groupPosition :: vec3

text \<open>
  \<open>frames[frameIndex]\<close>: defined when the index is an integer from 0 to the
  length of the array, excluded.
\<close>

definition frameAt :: "jsnum list list \<Rightarrow> jsnum \<Rightarrow> jsnum list option" where
  "frameAt fs i = (case i of
       NaN \<Rightarrow> None
     | Num r \<Rightarrow> (if 0 \<le> r \<and> r = of_int \<lfloor>r\<rfloor> then nth_opt fs (nat \<lfloor>r\<rfloor>) else None))"

definition updateFrame :: "viewer \<Rightarrow> jsnum \<Rightarrow> error + viewer" where
  "updateFrame v frameIndex =
     (case motionData v of
        None \<Rightarrow> Inr v
      | Some md \<Rightarrow>
          if jle (Num (real (length (frames md)))) frameIndex then Inr v
          else
            (case skeleton v of
               None \<Rightarrow> Inl TypeError
             | Some sk \<Rightarrow>
                 (case updateBone (frameAt (frames md) frameIndex) sk identity
                         \<lparr> channelIndex = 0, bones = boneTable v, endSiteUpdates = [] \<rparr> of
                    Inl e \<Rightarrow> Inl e
                  | Inr st \<Rightarrow>
                      Inr (v\<lparr> boneTable := applyEndSiteUpdates (endSiteUpdates st) (bones st) \<rparr>))))"

subsection \<open>Loading a file\<close>

text \<open>
  \<open>createSkeleton\<close>: the bone table is cleared and rebuilt from the skeleton,
  then frame 0 is evaluated.  (Before a file is loaded \<open>this.skeleton\<close> is
  \<open>null\<close>, and reading its offset throws.)
\<close>

definition createSkeleton :: "viewer \<Rightarrow> error + viewer" where
  "createSkeleton v =
     (case skeleton v of
        None \<Rightarrow> Inl TypeError
      | Some sk \<Rightarrow>
          (case createBonesFromBVH sk None (Num 0, Num 0, Num 0) [] of
             Inl e \<Rightarrow> Inl e
           | Inr bs \<Rightarrow> updateFrame (v\<lparr> boneTable := bs \<rparr>) (Num 0)))"

text \<open>
  \<open>loadBVHFile\<close> up to the call of \<open>normalizeSkeletonScale\<close>: the fields set
  from the parse result, then \<open>createSkeleton\<close>.
\<close>

definition loadParsed :: "viewer \<Rightarrow> parseResult \<Rightarrow> error + viewer" where
  "loadParsed v r = createSkeleton (v\<lparr> skeleton := Some (p_skeleton r),
                                         motionData := Some (p_motionData r) \<rparr>)"

definition newViewer :: viewer where
  "newViewer = \<lparr> skeleton = None, motionData = None, boneTable = [],
                 skeletonScale = Num 1, groupScale = Num 1,
                 groupPosition = (Num 0, Num 0, Num 0) \<rparr>"

subsection \<open>normalizeSkeletonScale\<close>

definition vy :: "vec3 \<Rightarrow> jsnum" where
  "vy p = (case p of (x, y, z) \<Rightarrow> y)"

definition findHeadPosition :: "boneTable \<Rightarrow> vec3 option" where
  "findHeadPosition bs =
     (case map_of bs (Some ''Head'') of
        Some headBone \<Rightarrow> Some (spherePosition headBone)
      | None \<Rightarrow>
          (case map_of bs (Some ''Neck'') of
             Some neckBone \<Rightarrow> Some (spherePosition neckBone)
           | None \<Rightarrow> None))"

text \<open>
  One step of the search for the lowest bone.  \<open>lowestY\<close> and
  \<open>lowestPosition\<close> change together; \<open>None\<close> is the initial pair
  (\<open>Infinity\<close>, \<open>null\<close>), below which every number lies.
\<close>

definition lower :: "bone \<Rightarrow> vec3 option \<Rightarrow> vec3 option" where
  "lower b low =
     (if (case low of
            None \<Rightarrow> vy (spherePosition b) \<noteq> NaN
          | Some l \<Rightarrow> jlt (vy (spherePosition b)) (vy l))
      then Some (spherePosition b) else low)"

fun lowestNamed :: "string list \<Rightarrow> boneTable \<Rightarrow> vec3 option \<Rightarrow> vec3 option" where
  "lowestNamed [] bs low = low"
| "lowestNamed (n # ns) bs low =
     lowestNamed ns bs (case map_of bs (Some n) of None \<Rightarrow> low | Some b \<Rightarrow> lower b low)"

fun lowestOfAll :: "boneTable \<Rightarrow> vec3 option \<Rightarrow> vec3 option" where
  "lowestOfAll [] low = low"
| "lowestOfAll ((k, b) # bs) low = lowestOfAll bs (lower b low)"

definition footBoneNames :: "string list" where
  "footBoneNames =
     [''LeftFoot'', ''RightFoot'', ''LeftToes'', ''RightToes'',
      ''L_Foot'', ''R_Foot'', ''L_Toe'', ''R_Toe'',
      ''left_foot'', ''right_foot'', ''left_toe'', ''right_toe'',
      ''LeftUpperLeg'', ''RightUpperLeg'', ''LeftLowerLeg'', ''RightLowerLeg'']"

definition footEndSiteNames :: "string list" where
  "footEndSiteNames =
     [''EndSite_LeftFoot'', ''EndSite_RightFoot'', ''EndSite_LeftToes'', ''EndSite_RightToes'',
      ''EndSite_L_Foot'', ''EndSite_R_Foot'', ''EndSite_L_Toe'', ''EndSite_R_Toe'',
      ''EndSite_left_foot'', ''EndSite_right_foot'', ''EndSite_left_toe'', ''EndSite_right_toe'']"

definition findLowestFootPosition :: "boneTable \<Rightarrow> vec3 option" where
  "findLowestFootPosition bs =
     (case lowestNamed footEndSiteNames bs (lowestNamed footBoneNames bs None) of
        Some p \<Rightarrow> Some p
      | None \<Rightarrow> lowestOfAll bs None)"

text \<open>
  \<open>fallbackScaling\<close> measures the bounding box of the three.js meshes, which
  are not modelled; it is a parameter of \<open>normalizeSkeletonScale\<close>.
\<close>

definition normalizeSkeletonScale :: "(viewer \<Rightarrow> viewer) \<Rightarrow> viewer \<Rightarrow> error + viewer" where
  "normalizeSkeletonScale fallbackScaling v0 =
     (case updateFrame v0 (Num 0) of
        Inl e \<Rightarrow> Inl e
      | Inr v \<Rightarrow>
          (case findHeadPosition (boneTable v) of
             None \<Rightarrow> Inr (fallbackScaling v)
           | Some headPosition \<Rightarrow>
               (case findLowestFootPosition (boneTable v) of
                  None \<Rightarrow> Inr (fallbackScaling v)
                | Some footPosition \<Rightarrow>
                    (let bodyHeight = jsub (vy headPosition) (vy footPosition) in
                     if jle bodyHeight (Num 1) then Inr (fallbackScaling v)
                     else
                       (let scale = jdiv (Num 160) bodyHeight;
                            scaledFootY = jmul (vy footPosition) scale
                        in Inr (v\<lparr> groupScale := scale,
                                    groupPosition := (Num 0, jsub (jneg scaledFootY) (Num 40), Num 0),
                                    skeletonScale := scale \<rparr>))))))"

section \<open>The traversal, written as a list\<close>

text \<open>
  What one frame evaluation visits, as data: the joints in pre-order
  (children in declaration order), each with its world transform and the
  position of the cursor when the joint is entered.  These definitions do not
  come from the source; the theorems below relate \<open>updateBone\<close> to them.
\<close>

fun channelTotal :: "node \<Rightarrow> nat" where
  "channelTotal (Node nm ty off chs cs) = length chs + sum_list (map channelTotal cs)"

text \<open>
  The same sum without the End Site nodes, which \<open>parseNode\<close> gives the type
  \<open>End\<close> (the first word of their line).
\<close>

fun jointChannelTotal :: "node \<Rightarrow> nat" where
  "jointChannelTotal (Node nm ty off chs cs) =
     (if ty = ''End'' then 0 else length chs) + sum_list (map jointChannelTotal cs)"

fun preorder :: "node \<Rightarrow> node list" where
  "preorder (Node nm ty off chs cs) = Node nm ty off chs cs # concat (map preorder cs)"

fun channelFold :: "jsnum list \<Rightarrow> string list \<Rightarrow> mat4 \<Rightarrow> nat \<Rightarrow> mat4" where
  "channelFold fd [] m ci = m"
| "channelFold fd (ch # rest) m ci =
     channelFold fd rest (applyChannel ch (readValue fd ci) m) (ci + 1)"

definition offsetTranslation :: "node \<Rightarrow> mat4" where
  "offsetTranslation n = (case offset n of (ox, oy, oz) \<Rightarrow> makeTranslation ox oy oz)"

definition worldOf :: "jsnum list \<Rightarrow> node \<Rightarrow> mat4 \<Rightarrow> nat \<Rightarrow> mat4" where
  "worldOf fd n W ci = multiplyMatrices W (channelFold fd (channels n) (offsetTranslation n) ci)"

fun visits :: "jsnum list \<Rightarrow> node \<Rightarrow> mat4 \<Rightarrow> nat \<Rightarrow> (node \<times> mat4 \<times> nat) list"
and visitsForEach :: "jsnum list \<Rightarrow> node list \<Rightarrow> mat4 \<Rightarrow> nat \<Rightarrow> (node \<times> mat4 \<times> nat) list"
where
  "visits fd (Node nm ty off chs cs) W ci =
     (Node nm ty off chs cs, worldOf fd (Node nm ty off chs cs) W ci, ci)
       # visitsForEach fd cs (worldOf fd (Node nm ty off chs cs) W ci) (ci + length chs)"
| "visitsForEach fd [] W ci = []"
| "visitsForEach fd (c # cs) W ci = visits fd c W ci @ visitsForEach fd cs W (ci + channelTotal c)"

text \<open>The two writes \<open>updateBone\<close> makes at one joint.\<close>

definition writeBone :: "boneTable \<Rightarrow> node \<times> mat4 \<times> nat \<Rightarrow> boneTable" where
  "writeBone bs v = (case v of (n, w, ci) \<Rightarrow> copyPosition (name n) (setFromMatrixPosition w) bs)"

definition writeEndSites :: "(string option \<times> vec3) list \<Rightarrow> node \<times> mat4 \<times> nat
                              \<Rightarrow> (string option \<times> vec3) list" where
  "writeEndSites ups v =
     (case v of (n, w, ci) \<Rightarrow> endSitePass n (setFromMatrixPosition w) (children n) ups)"

text \<open>
  The records \<open>endSiteUpdates.set\<close> receives, in order: one for each child of
  type \<open>End Site\<close> of each visited joint.
\<close>

definition isEndSite :: "node \<Rightarrow> bool" where
  "isEndSite c = (type c = ''End Site'')"

definition endSiteWrites :: "(node \<times> mat4 \<times> nat) list \<Rightarrow> (string option \<times> vec3) list" where
  "endSiteWrites vs =
     concat (map (\<lambda>(n, w, ci).
                    map (\<lambda>c. (endSiteName n, vadd (setFromMatrixPosition w) (offset c)))
                        (filter isEndSite (children n))) vs)"

text \<open>The result of a frame evaluation: bone identifier and world position.\<close>

definition positions :: "viewer \<Rightarrow> (string option \<times> vec3) list" where
  "positions v = map (\<lambda>(k, b). (k, spherePosition b)) (boneTable v)"



text \<open>
  The step of \<open>animate\<close> that picks the next frame:
  \<open>(currentFrame + framesToAdvance) % frameCount\<close>, then \<open>Math.floor\<close>.
  The remainder by zero is \<open>NaN\<close>.
\<close>

definition nextFrame :: "jsnum \<Rightarrow> jsnum \<Rightarrow> nat \<Rightarrow> jsnum" where
  "nextFrame currentFrame framesToAdvance count =
     (case jadd currentFrame framesToAdvance of
        NaN \<Rightarrow> NaN
      | Num x \<Rightarrow> (if count = 0 then NaN
                  else Num (real_of_int \<lfloor>x - real count * real_of_int (if x < 0 then \<lceil>x / real count\<rceil> else \<lfloor>x / real count\<rfloor>)\<rfloor>)))"

section \<open>Input texts\<close>

text \<open>Lines joined by line feeds, words joined by single spaces.\<close>

fun joinLines :: "string list \<Rightarrow> string" where
  "joinLines [] = []"
| "joinLines [l] = l"
| "joinLines (l # ls) = l @ CHR 0x0A # joinLines ls"

fun joinWords :: "string list \<Rightarrow> string" where
  "joinWords [] = []"
| "joinWords [w] = w"
| "joinWords (w # ws) = w @ CHR '' '' # joinWords ws"

text \<open>
  A hierarchy in the form the format description gives: every joint has an
  OFFSET line, a CHANNELS line with a count and that many channel names, then
  its children; an End Site has an OFFSET line only.  The numbers are kept as
  the tokens of the text.
\<close>

datatype jointText =
    JointText string "string \<times> string \<times> string" string "string list" "jointText list"
  | EndSiteText "string \<times> string \<times> string"

definition token :: "string \<Rightarrow> bool" where
  "token w = (w \<noteq> [] \<and> (\<forall>c\<in>set w. \<not> is_ws c))"

fun render :: "string \<Rightarrow> jointText \<Rightarrow> string list" where
  "render kw (JointText nm (x, y, z) cnt chs kids) =
     [joinWords [kw, nm], ''{'', joinWords [''OFFSET'', x, y, z],
      joinWords (''CHANNELS'' # cnt # chs)]
     @ concat (map (render ''JOINT'') kids) @ [''}'']"
| "render kw (EndSiteText (x, y, z)) =
     [''End Site'', ''{'', joinWords [''OFFSET'', x, y, z], ''}'']"

fun wellFormed :: "jointText \<Rightarrow> bool" where
  "wellFormed (JointText nm (x, y, z) cnt chs kids) =
     (token nm \<and> token x \<and> token y \<and> token z \<and> token cnt
      \<and> parseInt cnt = Num (real (length chs))
      \<and> (\<forall>c\<in>set chs. token c) \<and> (\<forall>k\<in>set kids. wellFormed k))"
| "wellFormed (EndSiteText (x, y, z)) = (token x \<and> token y \<and> token z)"

fun isJointText :: "jointText \<Rightarrow> bool" where
  "isJointText (JointText nm off cnt chs kids) = True"
| "isJointText (EndSiteText off) = False"

text \<open>The tree such a text describes.\<close>

fun treeOf :: "string \<Rightarrow> jointText \<Rightarrow> node" where
  "treeOf kw (JointText nm (x, y, z) cnt chs kids) =
     Node (Some nm) kw (parseFloat x, parseFloat y, parseFloat z) chs
          (map (treeOf ''JOINT'') kids)"
| "treeOf kw (EndSiteText (x, y, z)) =
     Node (Some ''Site'') ''End'' (parseFloat x, parseFloat y, parseFloat z) [] []"

section \<open>Auxiliary notions for the proofs\<close>

text \<open>The cursor at each joint of a list visited in order, starting from \<open>c\<close>.\<close>

fun cursorsFrom :: "nat \<Rightarrow> node list \<Rightarrow> nat list" where
  "cursorsFrom c [] = []"
| "cursorsFrom c (n # ns) = c # cursorsFrom (c + length (channels n)) ns"

text \<open>The position the last visit of a joint named \<open>k\<close> computes.\<close>

definition lastWrite :: "string option \<Rightarrow> (node \<times> mat4 \<times> nat) list \<Rightarrow> vec3 option" where
  "lastWrite k vs = (case rev (filter (\<lambda>v. name (fst v) = k) vs) of
       [] \<Rightarrow> None | x # xs \<Rightarrow> Some (setFromMatrixPosition (fst (snd x))))"

text \<open>A sequence of \<open>Map.set\<close> calls.\<close>

definition setAll :: "(string option \<times> vec3) list \<Rightarrow> (string option \<times> vec3) list
                        \<Rightarrow> (string option \<times> vec3) list" where
  "setAll ups ws = foldl (\<lambda>u (k, p). AList.update k p u) ups ws"

text \<open>The joints \<open>createBonesFromBVH\<close> makes a bone for under their own name.\<close>

definition hasBone :: "node \<Rightarrow> bool" where
  "hasBone m = (channels m \<noteq> [] \<and> type m \<noteq> ''End Site'')"

definition keysGrow :: "node list \<Rightarrow> boneTable \<Rightarrow> boneTable \<Rightarrow> bool" where
  "keysGrow ns bs bs' =
     (fst ` set bs \<subseteq> fst ` set bs' \<and> (\<forall>m\<in>set ns. hasBone m \<longrightarrow> name m \<in> fst ` set bs'))"

section \<open>Concrete inputs\<close>

text \<open>A file whose frame time is written as 0.\<close>

definition zero_time_lines :: "string list" where
  "zero_time_lines =
     [''HIERARCHY'', ''ROOT Hip'', ''{'', ''}'', ''MOTION'', ''Frames: 0'', ''Frame Time: 0'']"

definition zero_time_text :: string where
  "zero_time_text = joinLines zero_time_lines"

definition zero_time_result :: parseResult where
  "zero_time_result =
     \<lparr> p_skeleton = Node (Some ''Hip'') ''ROOT'' (Num 0, Num 0, Num 0) [] [],
       p_motionData = \<lparr> frameCount = 0, frameTime = Num 0, frames = [] \<rparr>,
       totalChannels = Num 0 \<rparr>"

text \<open>
  The scenario of the specification: a root with six channels, a joint
  \<open>Head\<close> with three, an End Site, one frame of nine zeros.
\<close>

definition scenario_text :: string where
  "scenario_text = joinLines
    [''HIERARCHY'',
     ''ROOT Hip'',
     ''{'',
     ''  OFFSET 0 0 0'',
     ''  CHANNELS 6 Xposition Yposition Zposition Zrotation Xrotation Yrotation'',
     ''  JOINT Head'',
     ''  {'',
     ''    OFFSET 0 20 0'',
     ''    CHANNELS 3 Zrotation Xrotation Yrotation'',
     ''    End Site'',
     ''    {'',
     ''      OFFSET 0 5 0'',
     ''    }'',
     ''  }'',
     ''}'',
     ''MOTION'',
     ''Frames: 1'',
     ''Frame Time: 0.0333333'',
     ''0 0 0 0 0 0 0 0 0'']"

definition scenario_lines :: "string list" where
  "scenario_lines =
    [''HIERARCHY'', ''ROOT Hip'', ''{'', ''OFFSET 0 0 0'',
     ''CHANNELS 6 Xposition Yposition Zposition Zrotation Xrotation Yrotation'',
     ''JOINT Head'', ''{'', ''OFFSET 0 20 0'',
     ''CHANNELS 3 Zrotation Xrotation Yrotation'', ''End Site'', ''{'',
     ''OFFSET 0 5 0'', ''}'', ''}'', ''}'', ''MOTION'', ''Frames: 1'',
     ''Frame Time: 0.0333333'', ''0 0 0 0 0 0 0 0 0'']"

definition scenario_head :: node where
  "scenario_head =
     Node (Some ''Head'') ''JOINT'' (Num 0, Num 20, Num 0)
          [''Zrotation'', ''Xrotation'', ''Yrotation'']
          [Node (Some ''Site'') ''End'' (Num 0, Num 5, Num 0) [] []]"

definition scenario_skeleton :: node where
  "scenario_skeleton =
     Node (Some ''Hip'') ''ROOT'' (Num 0, Num 0, Num 0)
          [''Xposition'', ''Yposition'', ''Zposition'', ''Zrotation'', ''Xrotation'', ''Yrotation'']
          [scenario_head]"

definition scenario_frame :: "jsnum list" where
  "scenario_frame = [Num 0, Num 0, Num 0, Num 0, Num 0, Num 0, Num 0, Num 0, Num 0]"

definition scenario_motion :: motionData where
  "scenario_motion =
     \<lparr> frameCount = 1, frameTime = Num (333333 / 10000000), frames = [scenario_frame] \<rparr>"

definition scenario_result :: parseResult where
  "scenario_result =
     \<lparr> p_skeleton = scenario_skeleton, p_motionData = scenario_motion, totalChannels = Num 9 \<rparr>"

text \<open>The same text as a description of the hierarchy.\<close>

definition scenario_joints :: jointText where
  "scenario_joints =
     JointText ''Hip'' (''0'', ''0'', ''0'') ''6''
       [''Xposition'', ''Yposition'', ''Zposition'', ''Zrotation'', ''Xrotation'', ''Yrotation'']
       [JointText ''Head'' (''0'', ''20'', ''0'') ''3''
          [''Zrotation'', ''Xrotation'', ''Yrotation'']
          [EndSiteText (''0'', ''5'', ''0'')]]"

text \<open>
  Small files with one joint of three channels: no frame at all; one frame
  line with a single number; ten frames declared and four given.
\<close>

definition hip_skeleton :: node where
  "hip_skeleton =
     Node (Some ''Hip'') ''ROOT'' (Num 0, Num 0, Num 0)
          [''Xposition'', ''Yposition'', ''Zposition''] []"

definition no_frames_lines :: "string list" where
  "no_frames_lines =
     [''HIERARCHY'', ''ROOT Hip'', ''{'', ''OFFSET 0 0 0'',
      ''CHANNELS 3 Xposition Yposition Zposition'', ''}'',
      ''MOTION'', ''Frames: 0'', ''Frame Time: 0.04'']"

definition no_frames_result :: parseResult where
  "no_frames_result =
     \<lparr> p_skeleton = hip_skeleton,
       p_motionData = \<lparr> frameCount = 0, frameTime = Num (1 / 25), frames = [] \<rparr>,
       totalChannels = Num 3 \<rparr>"

definition narrow_lines :: "string list" where
  "narrow_lines =
     [''HIERARCHY'', ''ROOT Hip'', ''{'', ''OFFSET 0 0 0'',
      ''CHANNELS 3 Xposition Yposition Zposition'', ''}'',
      ''MOTION'', ''Frames: 1'', ''Frame Time: 0.04'', ''7'']"

definition narrow_result :: parseResult where
  "narrow_result =
     \<lparr> p_skeleton = hip_skeleton,
       p_motionData = \<lparr> frameCount = 1, frameTime = Num (1 / 25), frames = [[Num 7]] \<rparr>,
       totalChannels = Num 3 \<rparr>"

definition partial_lines :: "string list" where
  "partial_lines =
     [''HIERARCHY'', ''ROOT Hip'', ''{'', ''OFFSET 0 0 0'',
      ''CHANNELS 3 Xposition Yposition Zposition'', ''}'',
      ''MOTION'', ''Frames: 10'', ''Frame Time: 0.04'',
      ''1 0 0'', ''2 0 0'', ''3 0 0'', ''4 0 0'']"

definition partial_result :: parseResult where
  "partial_result =
     \<lparr> p_skeleton = hip_skeleton,
       p_motionData = \<lparr> frameCount = 4, frameTime = Num (1 / 25),
                        frames = [[Num 1, Num 0, Num 0], [Num 2, Num 0, Num 0],
                                  [Num 3, Num 0, Num 0], [Num 4, Num 0, Num 0]] \<rparr>,
       totalChannels = Num 3 \<rparr>"

text \<open>
  A tree built by hand, with a child whose type is the two words \<open>End Site\<close>
  that the viewer tests for, under a root turned by 90 degrees about z.
\<close>

definition turned_skeleton :: node where
  "turned_skeleton =
     Node (Some ''Hip'') ''ROOT'' (Num 0, Num 0, Num 0) [''Zrotation'']
          [Node (Some ''End Site'') ''End Site'' (Num 0, Num 5, Num 0) [] []]"


text \<open>Two trees that differ in the order of the two rotation channels of the root.\<close>

definition order_xz :: node where
  "order_xz =
     Node (Some ''Hip'') ''ROOT'' (Num 0, Num 0, Num 0) [''Xrotation'', ''Zrotation'']
          [Node (Some ''Head'') ''JOINT'' (Num 0, Num 1, Num 0) [''Yrotation''] []]"

definition order_zx :: node where
  "order_zx =
     Node (Some ''Hip'') ''ROOT'' (Num 0, Num 0, Num 0) [''Zrotation'', ''Xrotation'']
          [Node (Some ''Head'') ''JOINT'' (Num 0, Num 1, Num 0) [''Yrotation''] []]"

definition quarter_turns :: motionData where
  "quarter_turns =
     \<lparr> frameCount = 1, frameTime = Num (1 / 25), frames = [[Num 90, Num 90, Num 0]] \<rparr>"

text \<open>A tree with two joints named \<open>Arm\<close>.\<close>

definition twin_skeleton :: node where
  "twin_skeleton =
     Node (Some ''Hip'') ''ROOT'' (Num 0, Num 0, Num 0) [''Xposition'']
          [Node (Some ''Arm'') ''JOINT'' (Num 1, Num 0, Num 0) [''Yposition''] [],
           Node (Some ''Arm'') ''JOINT'' (Num (- 1), Num 0, Num 0) [''Yposition''] []]"

definition twin_result :: parseResult where
  "twin_result =
     \<lparr> p_skeleton = twin_skeleton,
       p_motionData = \<lparr> frameCount = 1, frameTime = Num (1 / 25),
                        frames = [[Num 0, Num 2, Num 3]] \<rparr>,
       totalChannels = Num 3 \<rparr>"

text \<open>A file whose frame time is a lone dot.\<close>

definition dot_time_lines :: "string list" where
  "dot_time_lines =
     [''HIERARCHY'', ''ROOT Hip'', ''{'', ''}'', ''MOTION'', ''Frames: 0'', ''Frame Time: .'']"

definition dot_time_text :: string where
  "dot_time_text = joinLines dot_time_lines"

definition dot_time_result :: parseResult where
  "dot_time_result =
     \<lparr> p_skeleton = Node (Some ''Hip'') ''ROOT'' (Num 0, Num 0, Num 0) [] [],
       p_motionData = \<lparr> frameCount = 0, frameTime = NaN, frames = [] \<rparr>,
       totalChannels = Num 0 \<rparr>"


definition scenario_viewer :: viewer where
  "scenario_viewer =
     newViewer\<lparr> skeleton := Some scenario_skeleton,
                motionData := Some scenario_motion,
                boneTable :=
                  [(Some ''Hip'',
                    \<lparr> spherePosition = (Num 0, Num 0, Num 0), boneNode = scenario_skeleton,
                      boneChannels = channels scenario_skeleton,
                      position = (Num 0, Num 0, Num 0) \<rparr>),
                   (Some ''Head'',
                    \<lparr> spherePosition = (Num 0, Num 20, Num 0), boneNode = scenario_head,
                      boneChannels = channels scenario_head,
                      position = (Num 0, Num 20, Num 0) \<rparr>)] \<rparr>"

definition no_frames_viewer :: viewer where
  "no_frames_viewer =
     newViewer\<lparr> skeleton := Some hip_skeleton,
                motionData := Some (p_motionData no_frames_result),
                boneTable :=
                  [(Some ''Hip'',
                    \<lparr> spherePosition = (Num 0, Num 0, Num 0), boneNode = hip_skeleton,
                      boneChannels = channels hip_skeleton,
                      position = (Num 0, Num 0, Num 0) \<rparr>)] \<rparr>"

text \<open>The two trees of different channel order, as parse results.\<close>

definition order_xz_result :: parseResult where
  "order_xz_result =
     \<lparr> p_skeleton = order_xz, p_motionData = quarter_turns, totalChannels = Num 3 \<rparr>"

definition order_zx_result :: parseResult where
  "order_zx_result =
     \<lparr> p_skeleton = order_zx, p_motionData = quarter_turns, totalChannels = Num 3 \<rparr>"

definition narrow_text :: string where
  "narrow_text = joinLines narrow_lines"

definition partial_text :: string where
  "partial_text = joinLines partial_lines"

definition no_frames_text :: string where
  "no_frames_text = joinLines no_frames_lines"

section \<open>Lemmas about the traversal and the bone table\<close>


lemma applyChannels_fold:
  "applyChannels (Some fd) chs m ci = Inr (channelFold fd chs m ci, ci + length chs)"
  by (induction chs arbitrary: m ci) simp_all

lemma updateBone_visits:
  "updateBone (Some fd) n W st =
     Inr \<lparr> channelIndex = channelIndex st + channelTotal n,
           bones = foldl writeBone (bones st) (visits fd n W (channelIndex st)),
           endSiteUpdates = foldl writeEndSites (endSiteUpdates st) (visits fd n W (channelIndex st)) \<rparr>"
  and updateBoneForEach_visits:
  "updateBoneForEach (Some fd) cs W st =
     Inr \<lparr> channelIndex = channelIndex st + sum_list (map channelTotal cs),
           bones = foldl writeBone (bones st) (visitsForEach fd cs W (channelIndex st)),
           endSiteUpdates = foldl writeEndSites (endSiteUpdates st) (visitsForEach fd cs W (channelIndex st)) \<rparr>"
proof (induction "Some fd" n W st and "Some fd" cs W st rule: updateBone_updateBoneForEach.induct)
  case (1 nm ty off chs cs parentTransform st)
  obtain ox oy oz where off: "off = (ox, oy, oz)" by (cases off) auto
  show ?case
    using 1[OF off[symmetric] refl, of _ "channelFold fd chs (makeTranslation ox oy oz) (channelIndex st)" "channelIndex st + length chs"]
    by (simp add: off applyChannels_fold worldOf_def offsetTranslation_def writeBone_def writeEndSites_def Let_def add.assoc)
next
  case (2 world st)
  then show ?case by simp
next
  case (3 c cs world st)
  show ?case
    using 3 by (simp add: add.assoc)
qed

lemma frameAt_in_range:
  "frameAt fs i = Some fd \<Longrightarrow> \<not> jle (Num (real (length fs))) i"
  by (cases i) (auto simp: frameAt_def nth_opt_def split: if_splits)

lemma updateFrame_visits:
  assumes "motionData v = Some md" and "skeleton v = Some sk"
      and "frameAt (frames md) i = Some fd"
  shows "updateFrame v i =
           Inr (v\<lparr> boneTable := applyEndSiteUpdates
                     (foldl writeEndSites [] (visits fd sk identity 0))
                     (foldl writeBone (boneTable v) (visits fd sk identity 0)) \<rparr>)"
  using assms frameAt_in_range[OF assms(3)]
  by (simp add: updateFrame_def updateBone_visits)

subsection \<open>order and cursors\<close>

lemma visits_preorder:
  "map fst (visits fd n W ci) = preorder n"
  "map fst (visitsForEach fd cs W ci) = concat (map preorder cs)"
  by (induction fd n W ci and fd cs W ci rule: visits_visitsForEach.induct) simp_all

lemma cursorsFrom_append:
  "cursorsFrom c (xs @ ys) = cursorsFrom c xs @ cursorsFrom (c + sum_list (map (\<lambda>n. length (channels n)) xs)) ys"
  by (induction xs arbitrary: c) (simp_all add: add.assoc)

lemma channelTotal_preorder:
  "sum_list (map (\<lambda>n. length (channels n)) (preorder n)) = channelTotal n"
proof (induction n rule: channelTotal.induct)
  case (1 nm ty off chs cs)
  have "sum_list (map (\<lambda>n. length (channels n)) (concat (map preorder cs))) = sum_list (map channelTotal cs)"
    using 1 by (induction cs) auto
  then show ?case by simp
qed

lemma channelTotal_preorder_list:
  "sum_list (map (\<lambda>n. length (channels n)) (concat (map preorder cs))) = sum_list (map channelTotal cs)"
  by (induction cs) (auto simp: channelTotal_preorder)

lemma visits_cursors:
  "map (\<lambda>(n, w, ci). ci) (visits fd n W c) = cursorsFrom c (preorder n)"
  "map (\<lambda>(n, w, ci). ci) (visitsForEach fd cs W c) = cursorsFrom c (concat (map preorder cs))"
  by (induction fd n W c and fd cs W c rule: visits_visitsForEach.induct)
     (simp_all add: cursorsFrom_append channelTotal_preorder)

lemma cursorsFrom_sum:
  "cursorsFrom c ns = map (\<lambda>j. c + sum_list (map (\<lambda>n. length (channels n)) (take j ns))) [0..<length ns]"
proof (induction ns arbitrary: c)
  case Nil
  then show ?case by simp
next
  case (Cons n ns)
  have "[0..<length (n # ns)] = 0 # map Suc [0..<length ns]"
    by (simp add: upt_conv_Cons map_Suc_upt del: upt_Suc)
  then show ?case
    by (simp add: Cons.IH o_def add.assoc del: upt_Suc)
qed

lemma channelFold_zip:
  "channelFold fd chs m ci =
     foldl (\<lambda>m (ch, v). applyChannel ch v m) m (zip chs (map (readValue fd) [ci..<ci + length chs]))"
proof (induction chs arbitrary: m ci)
  case Nil
  then show ?case by simp
next
  case (Cons ch chs)
  have "[ci..<ci + length (ch # chs)] = ci # [ci + 1..<(ci + 1) + length chs]"
    by (simp add: upt_conv_Cons del: upt_Suc)
  then show ?case
    by (simp add: Cons.IH del: upt_Suc)
qed

subsection \<open>the bone table\<close>

lemma copyPosition_keys: "map fst (copyPosition k p bs) = map fst bs"
  by (induction bs) (auto simp: copyPosition_def)

lemma map_of_copyPosition:
  "map_of (copyPosition k p bs) k' =
     (if k' = k then map_option (\<lambda>b. b\<lparr> spherePosition := p \<rparr>) (map_of bs k) else map_of bs k')"
  by (induction bs) (auto simp: copyPosition_def)

lemma writeBone_keys: "map fst (foldl writeBone bs vs) = map fst bs"
  by (induction vs arbitrary: bs) (auto simp: writeBone_def copyPosition_keys)

lemma lastWrite_snoc:
  "lastWrite k (vs @ [v]) = (if name (fst v) = k then Some (setFromMatrixPosition (fst (snd v))) else lastWrite k vs)"
  by (simp add: lastWrite_def)

lemma lastWrite_Nil: "lastWrite k [] = None"
  by (simp add: lastWrite_def)

lemma position_after_writes:
  "map_option spherePosition (map_of (foldl writeBone bs vs) k) =
     (case map_of bs k of
        None \<Rightarrow> None
      | Some b \<Rightarrow> Some (case lastWrite k vs of None \<Rightarrow> spherePosition b | Some p \<Rightarrow> p))"
proof (induction vs rule: rev_induct)
  case Nil
  then show ?case by (simp add: lastWrite_Nil split: option.splits)
next
  case (snoc v vs)
  obtain n w ci where v: "v = (n, w, ci)" by (cases v) auto
  show ?case
  proof (cases "name n = k")
    case True
    then show ?thesis
      using snoc by (auto simp: v writeBone_def map_of_copyPosition lastWrite_snoc split: option.splits)
  next
    case False
    then show ?thesis
      using snoc by (auto simp: v writeBone_def map_of_copyPosition lastWrite_snoc split: option.splits)
  qed
qed


subsection \<open>End Site records\<close>

lemma endSitePass_setAll:
  "endSitePass n pos cs ups =
     setAll ups (map (\<lambda>c. (endSiteName n, vadd pos (offset c))) (filter isEndSite cs))"
  by (induction cs arbitrary: ups) (auto simp: setAll_def isEndSite_def)

lemma setAll_append: "setAll ups (xs @ ys) = setAll (setAll ups xs) ys"
  by (simp add: setAll_def)

lemma writeEndSites_setAll:
  "foldl writeEndSites ups vs = setAll ups (endSiteWrites vs)"
proof (induction vs arbitrary: ups)
  case Nil
  then show ?case by (simp add: setAll_def endSiteWrites_def)
next
  case (Cons v vs)
  obtain n w ci where v: "v = (n, w, ci)" by (cases v) auto
  have eq: "endSiteWrites (v # vs) =
          map (\<lambda>c. (endSiteName n, vadd (setFromMatrixPosition w) (offset c))) (filter isEndSite (children n))
          @ endSiteWrites vs"
    by (simp add: endSiteWrites_def v)
  have step: "writeEndSites ups v =
          setAll ups (map (\<lambda>c. (endSiteName n, vadd (setFromMatrixPosition w) (offset c))) (filter isEndSite (children n)))"
    by (simp add: v writeEndSites_def endSitePass_setAll)
  show ?case
    by (simp add: Cons.IH eq step setAll_append)
qed



lemma applyEndSiteUpdates_keys: "map fst (applyEndSiteUpdates ups bs) = map fst bs"
  by (induction ups bs rule: applyEndSiteUpdates.induct) (simp_all add: copyPosition_keys)






lemma createBones_distinct:
  "createBonesFromBVH n p pos bs = Inr bs' \<Longrightarrow> distinct (map fst bs) \<Longrightarrow> distinct (map fst bs')"
  "createBonesForEach cs n0 pos bs = Inr bs' \<Longrightarrow> distinct (map fst bs) \<Longrightarrow> distinct (map fst bs')"
proof (induction n p pos bs and cs n0 pos bs arbitrary: bs' and bs' rule: createBonesFromBVH_createBonesForEach.induct)
  case (1 nm ty off chs cs parentNode parentPos bs)
  show ?case
  proof (cases "length chs > 0 \<and> ty \<noteq> ''End Site''")
    case True
    from 1(4) True have "createBonesForEach cs (Node nm ty off chs cs) (vadd parentPos off)
          (AList.update nm \<lparr> spherePosition = vadd parentPos off, boneNode = Node nm ty off chs cs,
                             boneChannels = chs, position = vadd parentPos off \<rparr> bs) = Inr bs'"
      by (simp add: Let_def)
    from 1(1)[OF refl refl True this] 1(5) show ?thesis
      by (simp add: distinct_update)
  next
    case False
    show ?thesis
    proof (cases "ty = ''End Site''")
      case True
      then obtain p where p: "parentNode = Some p"
        using 1(4) False by (cases parentNode) (auto simp: Let_def)
      from 1(4) False True p have "createBonesForEach cs (Node nm ty off chs cs) (vadd parentPos off)
          (AList.update (endSiteName p) \<lparr> spherePosition = vadd parentPos off, boneNode = Node nm ty off chs cs,
                             boneChannels = [], position = vadd parentPos off \<rparr> bs) = Inr bs'"
        by (simp add: Let_def)
      from 1(2)[OF refl refl False True p this] 1(5) show ?thesis
        by (simp add: distinct_update)
    next
      case F2: False
      from 1(4) False F2 have "createBonesForEach cs (Node nm ty off chs cs) (vadd parentPos off) bs = Inr bs'"
        by (simp add: Let_def)
      from 1(3)[OF refl refl False F2 this] 1(5) show ?thesis .
    qed
  qed
next
  case (2 node pos bs)
  then show ?case by simp
next
  case (3 c cs node pos bs)
  from 3(3) obtain bs1 where c1: "createBonesFromBVH c (Some node) pos bs = Inr bs1"
    and c2: "createBonesForEach cs node pos bs1 = Inr bs'"
    by (auto split: sum.splits)
  from 3(2)[OF c1 c2] 3(1)[OF c1] 3(4) show ?case by simp
qed


lemma keysGrow_trans:
  "keysGrow xs bs bs1 \<Longrightarrow> keysGrow ys bs1 bs2 \<Longrightarrow> keysGrow (xs @ ys) bs bs2"
  unfolding keysGrow_def by (simp add: subset_iff Ball_def)

lemma createBones_unfold:
  assumes "createBonesFromBVH (Node nm ty off chs cs) p pos bs = Inr bs'"
  shows "\<exists>bs0. createBonesForEach cs (Node nm ty off chs cs) (vadd pos off) bs0 = Inr bs'
           \<and> keysGrow [Node nm ty off chs cs] bs bs0"
proof (cases "length chs > 0 \<and> ty \<noteq> ''End Site''")
  case True
  with assms have "createBonesForEach cs (Node nm ty off chs cs) (vadd pos off)
          (AList.update nm \<lparr> spherePosition = vadd pos off, boneNode = Node nm ty off chs cs,
                             boneChannels = chs, position = vadd pos off \<rparr> bs) = Inr bs'"
    by (simp add: Let_def)
  moreover have "keysGrow [Node nm ty off chs cs] bs (AList.update nm \<lparr> spherePosition = vadd pos off, boneNode = Node nm ty off chs cs,
                             boneChannels = chs, position = vadd pos off \<rparr> bs)"
    by (auto simp: keysGrow_def dom_update)
  ultimately show ?thesis by blast
next
  case False
  then have nb: "\<not> hasBone (Node nm ty off chs cs)" by (auto simp: hasBone_def)
  show ?thesis
  proof (cases "ty = ''End Site''")
    case True
    with assms False obtain q where q: "p = Some q"
      by (cases p) (auto simp: Let_def)
    with assms False True have "createBonesForEach cs (Node nm ty off chs cs) (vadd pos off)
          (AList.update (endSiteName q) \<lparr> spherePosition = vadd pos off, boneNode = Node nm ty off chs cs,
                             boneChannels = [], position = vadd pos off \<rparr> bs) = Inr bs'"
      by (simp add: Let_def)
    moreover have "keysGrow [Node nm ty off chs cs] bs (AList.update (endSiteName q) \<lparr> spherePosition = vadd pos off, boneNode = Node nm ty off chs cs,
                             boneChannels = [], position = vadd pos off \<rparr> bs)"
      using nb by (auto simp: keysGrow_def dom_update)
    ultimately show ?thesis by blast
  next
    case F2: False
    with assms False have "createBonesForEach cs (Node nm ty off chs cs) (vadd pos off) bs = Inr bs'"
      by (simp add: Let_def)
    moreover have "keysGrow [Node nm ty off chs cs] bs bs"
      using nb by (auto simp: keysGrow_def)
    ultimately show ?thesis by blast
  qed
qed

lemma createBonesForEach_keys:
  assumes "\<forall>c\<in>set cs. \<forall>p pos bs bs'. createBonesFromBVH c p pos bs = Inr bs' \<longrightarrow> keysGrow (preorder c) bs bs'"
      and "createBonesForEach cs n0 pos bs = Inr bs'"
  shows "keysGrow (concat (map preorder cs)) bs bs'"
  using assms
proof (induction cs arbitrary: bs)
  case Nil
  then show ?case by (simp add: keysGrow_def)
next
  case (Cons c cs)
  from Cons.prems(2) obtain bs1 where c1: "createBonesFromBVH c (Some n0) pos bs = Inr bs1"
    and c2: "createBonesForEach cs n0 pos bs1 = Inr bs'"
    by (auto split: sum.splits)
  have a: "keysGrow (preorder c) bs bs1"
    using Cons.prems(1) c1 by (meson list.set_intros(1))
  have b: "keysGrow (concat (map preorder cs)) bs1 bs'"
    using Cons.IH[OF _ c2] Cons.prems(1) by simp
  from keysGrow_trans[OF a b] show ?case by simp
qed

lemma createBones_keys:
  "createBonesFromBVH n p pos bs = Inr bs' \<Longrightarrow> keysGrow (preorder n) bs bs'"
proof (induction n arbitrary: p pos bs bs' rule: preorder.induct)
  case (1 nm ty off chs cs)
  from createBones_unfold[OF 1(2)] obtain bs0 where
    a: "createBonesForEach cs (Node nm ty off chs cs) (vadd pos off) bs0 = Inr bs'"
    and b: "keysGrow [Node nm ty off chs cs] bs bs0" by blast
  have "\<forall>c\<in>set cs. \<forall>p pos bs bs'. createBonesFromBVH c p pos bs = Inr bs' \<longrightarrow> keysGrow (preorder c) bs bs'"
    using 1(1) by blast
  from createBonesForEach_keys[OF this a]
  have "keysGrow (concat (map preorder cs)) bs0 bs'" .
  from keysGrow_trans[OF b this] show ?case by simp
qed

lemma createBonesForEach_succeeds:
  assumes "\<forall>c\<in>set cs. \<forall>p pos bs. \<exists>bs'. createBonesFromBVH c p pos bs = Inr bs'"
  shows "\<exists>bs'. createBonesForEach cs n0 pos bs = Inr bs'"
  using assms
proof (induction cs arbitrary: bs)
  case Nil
  then show ?case by simp
next
  case (Cons c cs)
  from Cons.prems obtain bs1 where c1: "createBonesFromBVH c (Some n0) pos bs = Inr bs1"
    by (meson list.set_intros(1))
  from Cons.IH[of bs1] Cons.prems obtain bs' where "createBonesForEach cs n0 pos bs1 = Inr bs'"
    by auto
  with c1 show ?case by simp
qed

lemma createBones_succeeds:
  "\<forall>m\<in>set (preorder n). type m \<noteq> ''End Site'' \<Longrightarrow> \<exists>bs'. createBonesFromBVH n p pos bs = Inr bs'"
proof (induction n arbitrary: p pos bs rule: preorder.induct)
  case (1 nm ty off chs cs)
  have "\<forall>c\<in>set cs. \<forall>p pos bs. \<exists>bs'. createBonesFromBVH c p pos bs = Inr bs'"
    using 1 by auto
  from createBonesForEach_succeeds[OF this] 1(2) show ?case
    by (simp add: Let_def)
qed



lemma child_in_preorder:
  "n \<in> set (preorder r) \<Longrightarrow> c \<in> set (children n) \<Longrightarrow> c \<in> set (preorder r)"
proof (induction r rule: preorder.induct)
  case (1 nm ty off chs cs)
  show ?case
  proof (cases "n = Node nm ty off chs cs")
    case True
    with 1(3) have "c \<in> set cs" by simp
    moreover have "c \<in> set (preorder c)" by (cases c) simp
    ultimately show ?thesis by auto
  next
    case False
    with 1(2) obtain x where "x \<in> set cs" "n \<in> set (preorder x)" by auto
    with 1(1) 1(3) show ?thesis by auto
  qed
qed

lemma visited_in_preorder:
  "(n, w, ci) \<in> set (visits fd r W c) \<Longrightarrow> n \<in> set (preorder r)"
  using visits_preorder(1)[of fd r W c] by (metis fst_conv image_eqI set_map)

lemma no_endSiteWrites:
  assumes "\<forall>m\<in>set (preorder r). type m \<noteq> ''End Site''"
  shows "endSiteWrites (visits fd r W c) = []"
proof -
  have "\<And>n w ci. (n, w, ci) \<in> set (visits fd r W c) \<Longrightarrow> filter isEndSite (children n) = []"
    using assms child_in_preorder visited_in_preorder
    by (fastforce simp: filter_empty_conv isEndSite_def)
  then show ?thesis
    by (auto simp: endSiteWrites_def)
qed

lemma count_key:
  "distinct (map fst bs) \<Longrightarrow> k \<in> fst ` set bs \<Longrightarrow> length (filter (\<lambda>(k', b). k' = k) bs) = 1"
proof (induction bs)
  case Nil
  then show ?case by simp
next
  case (Cons x bs)
  obtain k' b where x: "x = (k', b)" by (cases x) auto
  show ?case
  proof (cases "k' = k")
    case True
    with Cons.prems x have "k \<notin> fst ` set bs" by auto
    then have "filter (\<lambda>(k', b). k' = k) bs = []"
      by (force simp: filter_empty_conv)
    with True x show ?thesis by simp
  next
    case False
    with Cons x show ?thesis by auto
  qed
qed

lemma map_of_positions:
  "map_of (positions v) k = map_option spherePosition (map_of (boneTable v) k)"
  unfolding positions_def by (induction "boneTable v" arbitrary: v) (auto simp: map_of_map split: prod.splits)

section \<open>Evaluating the parser on concrete texts\<close>

lemmas str_eval = is_ws_def is_digit_def digit_val_def startsWith_def trim_def nth_opt_def
  take_sign_def is_digit_or_dot_def match_here_def
lemmas parseNode_numeral = parseNode.simps(2)[of "pred_numeral k" for k, folded numeral_eq_Suc]
lemmas parseBody_numeral = parseBody.simps(2)[of "pred_numeral k" for k, folded numeral_eq_Suc]
lemmas parse_eval = Let_def str_eval parseFloat_opt_def parseInt_opt_def parseFloat_def parseInt_def
  exponent_factor_def slice_def set_offset_def set_channels_def push_child_def
  parseNode_numeral parseBody_numeral iterations_def

lemma zero_time_prepare: "prepare zero_time_text = zero_time_lines"
  by (simp add: zero_time_text_def zero_time_lines_def prepare_def str_eval)

lemma zero_time_hierarchy:
  "parseHierarchy zero_time_lines 1 =
     Some (Inr (Node (Some ''Hip'') ''ROOT'' (Num 0, Num 0, Num 0) [] [], Num 0, 4))"
  by (simp add: parseHierarchy_def zero_time_lines_def parse_eval)

lemma zero_time_findIndex: "findIndex (\<lambda>line. line = ''MOTION'') zero_time_lines = Some 4"
  by (simp add: zero_time_lines_def)

lemma zero_time_motion:
  "parseMotion zero_time_lines (4 + 1) = Inr \<lparr> frameCount = 0, frameTime = Num 0, frames = [] \<rparr>"
  by (simp add: parseMotion_def zero_time_lines_def parse_eval)

lemma zero_time_head: "nth_opt zero_time_lines 0 = Some ''HIERARCHY''"
  by (simp add: zero_time_lines_def nth_opt_def)

lemma zero_time_parse: "parse zero_time_text = Some (Inr zero_time_result)"
  using zero_time_head
  by (simp only: parse_def Let_def zero_time_prepare zero_time_hierarchy zero_time_findIndex
        zero_time_motion zero_time_result_def option.case sum.case prod.case simp_thms if_False)

lemmas mat_eval = identity_def makeTranslation_def makeRotationX_def makeRotationY_def makeRotationZ_def
  degToRad_def setFromMatrixPosition_def applyChannel_def readValue_def nth_opt_def
  worldOf_def offsetTranslation_def Let_def

lemma dot_time_parse: "parse dot_time_text = Some (Inr dot_time_result)"
proof -
  have 1: "prepare dot_time_text = dot_time_lines"
    by (simp add: dot_time_text_def dot_time_lines_def prepare_def str_eval)
  have 2: "parseHierarchy dot_time_lines 1 =
             Some (Inr (Node (Some ''Hip'') ''ROOT'' (Num 0, Num 0, Num 0) [] [], Num 0, 4))"
    by (simp add: parseHierarchy_def dot_time_lines_def parse_eval)
  have 3: "findIndex (\<lambda>line. line = ''MOTION'') dot_time_lines = Some 4"
    by (simp add: dot_time_lines_def)
  have 4: "parseMotion dot_time_lines (4 + 1) = Inr \<lparr> frameCount = 0, frameTime = NaN, frames = [] \<rparr>"
    by (simp add: parseMotion_def dot_time_lines_def parse_eval)
  have 5: "nth_opt dot_time_lines 0 = Some ''HIERARCHY''"
    by (simp add: dot_time_lines_def nth_opt_def)
  show ?thesis
    using 5
    by (simp only: parse_def Let_def 1 2 3 4 dot_time_result_def
          option.case sum.case prod.case simp_thms if_False)
qed

lemma scenario_prepare: "prepare scenario_text = scenario_lines"
  by (simp add: scenario_text_def scenario_lines_def prepare_def str_eval)

lemma scenario_hierarchy:
  "parseHierarchy scenario_lines 1 = Some (Inr (scenario_skeleton, Num 9, 15))"
  by (simp add: parseHierarchy_def scenario_lines_def scenario_skeleton_def scenario_head_def parse_eval)

lemma scenario_findIndex: "findIndex (\<lambda>line. line = ''MOTION'') scenario_lines = Some 15"
  by (simp add: scenario_lines_def)

lemma scenario_parseMotion: "parseMotion scenario_lines (15 + 1) = Inr scenario_motion"
  by (simp add: parseMotion_def scenario_lines_def scenario_motion_def scenario_frame_def parse_eval)

lemma scenario_first_line: "nth_opt scenario_lines 0 = Some ''HIERARCHY''"
  by (simp add: scenario_lines_def nth_opt_def)

lemma scenario_parse: "parse scenario_text = Some (Inr scenario_result)"
  using scenario_first_line
  by (simp only: parse_def Let_def scenario_prepare scenario_hierarchy scenario_findIndex
        scenario_parseMotion scenario_result_def option.case sum.case prod.case simp_thms if_False)

section \<open>Loading never fails on a parsed skeleton\<close>

lemma updateFrame_keys:
  assumes "motionData v = Some md" and "skeleton v = Some sk"
      and "frameAt (frames md) i = Some fd" and "updateFrame v i = Inr v'"
  shows "skeleton v' = Some sk \<and> motionData v' = Some md \<and> map fst (boneTable v') = map fst (boneTable v)"
  using assms updateFrame_visits[OF assms(1,2,3)]
  by (auto simp: applyEndSiteUpdates_keys writeBone_keys)

lemma updateFrame_zero:
  assumes "motionData v = Some md" and "skeleton v = Some sk"
  shows "\<exists>v'. updateFrame v (Num 0) = Inr v' \<and> skeleton v' = Some sk \<and> motionData v' = Some md
           \<and> map fst (boneTable v') = map fst (boneTable v)"
proof (cases "frames md")
  case Nil
  with assms show ?thesis by (simp add: updateFrame_def)
next
  case (Cons f fs)
  then have fa: "frameAt (frames md) (Num 0) = Some f"
    by (simp add: frameAt_def nth_opt_def)
  from updateFrame_visits[OF assms fa] assms show ?thesis
    by (simp add: applyEndSiteUpdates_keys writeBone_keys)
qed

lemma loadParsed_ok:
  assumes "\<forall>m\<in>set (preorder (p_skeleton r)). type m \<noteq> ''End Site''"
  shows "\<exists>v. loadParsed v0 r = Inr v \<and> skeleton v = Some (p_skeleton r)
           \<and> motionData v = Some (p_motionData r)
           \<and> distinct (map fst (boneTable v))
           \<and> (\<forall>m\<in>set (preorder (p_skeleton r)). hasBone m \<longrightarrow> name m \<in> fst ` set (boneTable v))"
proof -
  from createBones_succeeds[OF assms] obtain bs where
    bs: "createBonesFromBVH (p_skeleton r) None (Num 0, Num 0, Num 0) [] = Inr bs" by blast
  from createBones_distinct(1)[OF bs] have d: "distinct (map fst bs)" by simp
  from createBones_keys[OF bs] have k: "\<forall>m\<in>set (preorder (p_skeleton r)). hasBone m \<longrightarrow> name m \<in> fst ` set bs"
    by (simp add: keysGrow_def)
  let ?v = "v0\<lparr> skeleton := Some (p_skeleton r), motionData := Some (p_motionData r), boneTable := bs \<rparr>"
  from updateFrame_zero[of ?v "p_motionData r" "p_skeleton r"] obtain v' where
    v': "updateFrame ?v (Num 0) = Inr v'" "skeleton v' = Some (p_skeleton r)"
        "motionData v' = Some (p_motionData r)" "map fst (boneTable v') = map fst bs"
    by auto
  have "loadParsed v0 r = Inr v'"
    using bs v'(1) by (simp add: loadParsed_def createSkeleton_def)
  moreover have "fst ` set (boneTable v') = fst ` set bs"
    using v'(4) by (metis set_map)
  ultimately show ?thesis
    using v' d k by auto
qed

lemma lastWrite_last:
  assumes "filter (\<lambda>e. name (fst e) = k) vs \<noteq> []"
  shows "lastWrite k vs = Some (setFromMatrixPosition (fst (snd (last (filter (\<lambda>e. name (fst e) = k) vs)))))"
proof -
  from assms obtain x xs where r: "rev (filter (\<lambda>e. name (fst e) = k) vs) = x # xs"
    by (cases "rev (filter (\<lambda>e. name (fst e) = k) vs)") auto
  then have "last (filter (\<lambda>e. name (fst e) = k) vs) = x"
    by (metis last_rev list.sel(1) rev_rev_ident)
  with r show ?thesis by (simp add: lastWrite_def)
qed

section \<open>Membership in the End Site records\<close>







section \<open>Evaluating the viewer on concrete trees\<close>




lemma quarter_turn: "cos (90 * (pi / 180)) = 0" "sin (90 * (pi / 180)) = 1"
proof -
  have "90 * (pi / 180) = pi / 2" by simp
  then show "cos (90 * (pi / 180)) = 0" "sin (90 * (pi / 180)) = 1"
    by (simp_all only: cos_pi_half sin_pi_half)
qed

lemma turned_visits:
  "map (\<lambda>(n, w, ci). (name n, setFromMatrixPosition w, ci)) (visits [Num 90] turned_skeleton identity 0)
   = [(Some ''Hip'', (Num 0, Num 0, Num 0), 0), (Some ''End Site'', (Num (- 5), Num 0, Num 0), 1)]"
  by (simp add: turned_skeleton_def mat_eval quarter_turn)






section \<open>The frame time\<close>

lemma match_here_grp: "match_here lit grp s = Some g \<Longrightarrow> g \<noteq> [] \<and> (\<forall>c\<in>set g. grp c)"
  by (auto simp: match_here_def Let_def split: if_splits dest: set_takeWhileD)

lemma regex_match_grp: "regex_match lit grp s = Some g \<Longrightarrow> g \<noteq> [] \<and> (\<forall>c\<in>set g. grp c)"
  by (induction s) (auto split: option.splits dest: match_here_grp)

lemma exponent_factor_nonneg: "0 \<le> exponent_factor s"
  by (auto simp: exponent_factor_def Let_def split: list.splits prod.splits)

lemma digit_or_dot_plain:
  "is_digit_or_dot c \<Longrightarrow> \<not> is_ws c \<and> c \<noteq> CHR ''-'' \<and> c \<noteq> CHR ''+''"
  by (auto simp: is_digit_or_dot_def is_digit_def is_ws_def)

lemma parseFloat_digits_dots:
  assumes "g \<noteq> []" and "\<forall>c\<in>set g. is_digit_or_dot c"
  shows "parseFloat g = NaN \<or> (\<exists>x. parseFloat g = Num x \<and> 0 \<le> x)"
proof -
  from assms obtain c cs where g: "g = c # cs" and c: "is_digit_or_dot c"
    by (cases g) auto
  from digit_or_dot_plain[OF c] have "dropWhile is_ws g = g" and "take_sign g = (1, g)"
    by (simp_all add: g take_sign_def)
  then show ?thesis
    by (simp add: parseFloat_def Let_def exponent_factor_nonneg)
qed

text \<open>
  C9, as the specification states it, fails: \<open>parse\<close> accepts a file whose
  frame time is 0 and returns that value, which is not greater than 0.
\<close>

theorem frame_time_zero_accepted:
  "parse zero_time_text = Some (Inr zero_time_result)
   \<and> frameTime (p_motionData zero_time_result) = Num 0
   \<and> \<not> jlt (Num 0) (frameTime (p_motionData zero_time_result))"
  by (simp add: zero_time_parse) (simp add: zero_time_result_def)

lemma parseMotion_frameTime:
  assumes "parseMotion ls s = Inr md"
  shows "\<exists>g. regex_match ''Frame Time:'' is_digit_or_dot (ls ! (s + 1)) = Some g \<and> frameTime md = parseFloat g"
  using assms
  by (auto simp: parseMotion_def Let_def split: if_splits option.splits)

lemma parse_motion:
  assumes "parse content = Some (Inr r)"
  shows "\<exists>m. findIndex (\<lambda>line. line = ''MOTION'') (prepare content) = Some m
           \<and> parseMotion (prepare content) (m + 1) = Inr (p_motionData r)"
  using assms
  by (auto simp: parse_def Let_def split: if_splits option.splits sum.splits prod.splits)

text \<open>
  C9, amended: whenever \<open>parse\<close> succeeds, the frame time is the value
  \<open>parseFloat\<close> reads from the group of digits and dots matched on the second
  line after \<open>MOTION\<close>; that value is \<open>NaN\<close> or a number that is not
  negative.  Both 0 and \<open>NaN\<close> occur: there is no check that the frame time
  is positive.
\<close>

theorem frame_time_read_by_parseFloat:
  assumes "parse content = Some (Inr r)"
  shows "(\<exists>m g. findIndex (\<lambda>line. line = ''MOTION'') (prepare content) = Some m
            \<and> regex_match ''Frame Time:'' is_digit_or_dot (prepare content ! (m + 2)) = Some g
            \<and> g \<noteq> [] \<and> (\<forall>c\<in>set g. is_digit_or_dot c)
            \<and> frameTime (p_motionData r) = parseFloat g
            \<and> (parseFloat g = NaN \<or> (\<exists>x. parseFloat g = Num x \<and> 0 \<le> x)))
         \<and> parse zero_time_text = Some (Inr zero_time_result)
         \<and> frameTime (p_motionData zero_time_result) = Num 0
         \<and> parse dot_time_text = Some (Inr dot_time_result)
         \<and> frameTime (p_motionData dot_time_result) = NaN"
proof -
  from parse_motion[OF assms] obtain m where
    m: "findIndex (\<lambda>line. line = ''MOTION'') (prepare content) = Some m"
       "parseMotion (prepare content) (m + 1) = Inr (p_motionData r)" by blast
  from parseMotion_frameTime[OF m(2)] obtain g where
    g: "regex_match ''Frame Time:'' is_digit_or_dot (prepare content ! (m + 2)) = Some g"
       "frameTime (p_motionData r) = parseFloat g"
    by (auto simp: add.assoc)
  from regex_match_grp[OF g(1)] have grp: "g \<noteq> []" "\<forall>c\<in>set g. is_digit_or_dot c" by simp_all
  from parseFloat_digits_dots[OF grp]
  have rng: "parseFloat g = NaN \<or> (\<exists>x. parseFloat g = Num x \<and> 0 \<le> x)" .
  have A: "\<exists>m g. findIndex (\<lambda>line. line = ''MOTION'') (prepare content) = Some m
            \<and> regex_match ''Frame Time:'' is_digit_or_dot (prepare content ! (m + 2)) = Some g
            \<and> g \<noteq> [] \<and> (\<forall>c\<in>set g. is_digit_or_dot c)
            \<and> frameTime (p_motionData r) = parseFloat g
            \<and> (parseFloat g = NaN \<or> (\<exists>x. parseFloat g = Num x \<and> 0 \<le> x))"
    using m(1) g grp rng by (intro exI[of _ m] exI[of _ g]) simp
  have B: "frameTime (p_motionData zero_time_result) = Num 0"
    by (simp add: zero_time_result_def)
  have C: "frameTime (p_motionData dot_time_result) = NaN"
    by (simp add: dot_time_result_def)
  from A B C zero_time_parse dot_time_parse show ?thesis by simp
qed

theorem frame_time_read_by_parseFloat_witness:
  "parse scenario_text = Some (Inr scenario_result)
   \<and> findIndex (\<lambda>line. line = ''MOTION'') (prepare scenario_text) = Some 15
   \<and> regex_match ''Frame Time:'' is_digit_or_dot (prepare scenario_text ! (15 + 2)) = Some ''0.0333333''
   \<and> frameTime (p_motionData scenario_result) = parseFloat ''0.0333333''
   \<and> parseFloat ''0.0333333'' = Num (333333 / 10000000)"
proof -
  have 1: "findIndex (\<lambda>line. line = ''MOTION'') (prepare scenario_text) = Some 15"
    by (simp only: scenario_prepare scenario_findIndex)
  have 2: "regex_match ''Frame Time:'' is_digit_or_dot (prepare scenario_text ! (15 + 2)) = Some ''0.0333333''"
    by (simp add: scenario_prepare scenario_lines_def str_eval)
  have 3: "parseFloat ''0.0333333'' = Num (333333 / 10000000)"
    by (simp add: parse_eval)
  from frame_time_read_by_parseFloat[OF scenario_parse] obtain m g where
    mg: "findIndex (\<lambda>line. line = ''MOTION'') (prepare scenario_text) = Some m"
        "regex_match ''Frame Time:'' is_digit_or_dot (prepare scenario_text ! (m + 2)) = Some g"
        "frameTime (p_motionData scenario_result) = parseFloat g"
    by blast
  from mg(1) 1 have "m = 15" by simp
  with mg(2) 2 have "g = ''0.0333333''" by simp
  with mg(3) 1 2 3 scenario_parse show ?thesis by simp
qed

section \<open>Joints that share a name\<close>

text \<open>
  C10: a skeleton without nodes of type \<open>End Site\<close> (every tree the parser
  builds is one) loads without error; when a joint with channels is named
  \<open>nm\<close>, the bone table holds exactly one entry under \<open>nm\<close>, also after a
  frame evaluation, which succeeds, and the position under \<open>nm\<close> is the one
  computed at the last visit, in pre-order, of a joint of that name.
\<close>

theorem same_name_one_bone_last_visit_wins:
  assumes noES: "\<forall>m\<in>set (preorder (p_skeleton r)). type m \<noteq> ''End Site''"
      and fr: "frameAt (frames (p_motionData r)) i = Some fd"
      and j: "j \<in> set (preorder (p_skeleton r))" "name j = nm" "channels j \<noteq> []"
  shows "\<exists>v v'. loadParsed newViewer r = Inr v \<and> updateFrame v i = Inr v'
           \<and> length (filter (\<lambda>(k, b). k = nm) (boneTable v')) = 1
           \<and> map_of (positions v') nm =
               Some (setFromMatrixPosition (fst (snd (last
                 (filter (\<lambda>e. name (fst e) = nm) (visits fd (p_skeleton r) identity 0))))))"
proof -
  let ?sk = "p_skeleton r"
  let ?vs = "visits fd ?sk identity 0"
  from loadParsed_ok[OF noES, of newViewer] obtain v where
    v: "loadParsed newViewer r = Inr v" "skeleton v = Some ?sk" "motionData v = Some (p_motionData r)"
       "distinct (map fst (boneTable v))"
       "\<forall>m\<in>set (preorder ?sk). hasBone m \<longrightarrow> name m \<in> fst ` set (boneTable v)"
    by blast
  have hb: "hasBone j" using j noES by (simp add: hasBone_def)
  with v(5) j have key: "nm \<in> fst ` set (boneTable v)" by auto
  let ?v' = "v\<lparr> boneTable := foldl writeBone (boneTable v) ?vs \<rparr>"
  have up: "updateFrame v i = Inr ?v'"
    using updateFrame_visits[OF v(3) v(2) fr]
    by (simp add: writeEndSites_setAll no_endSiteWrites[OF noES] setAll_def)
  have keys: "map fst (boneTable ?v') = map fst (boneTable v)"
    by (simp add: writeBone_keys)
  have cnt: "length (filter (\<lambda>(k, b). k = nm) (boneTable ?v')) = 1"
    using count_key[of "boneTable ?v'" nm] keys v(4) key by (metis set_map)
  from key obtain b where b: "map_of (boneTable v) nm = Some b"
    by (metis domD dom_map_of_conv_image_fst)
  have "j \<in> fst ` set ?vs"
    using j(1) visits_preorder(1)[of fd ?sk identity 0] by (metis set_map)
  then obtain e where "e \<in> set ?vs" "fst e = j" by auto
  with j(2) have ne: "filter (\<lambda>e. name (fst e) = nm) ?vs \<noteq> []"
    by (auto simp: filter_empty_conv)
  have "map_of (positions ?v') nm = Some (setFromMatrixPosition (fst (snd (last
                 (filter (\<lambda>e. name (fst e) = nm) ?vs)))))"
    using position_after_writes[of "boneTable v" ?vs nm] b lastWrite_last[OF ne]
    by (simp add: map_of_positions)
  with v(1) up cnt show ?thesis by blast
qed

lemma twin_last:
  "setFromMatrixPosition (fst (snd (last (filter (\<lambda>e. name (fst e) = Some ''Arm'')
      (visits [Num 0, Num 2, Num 3] twin_skeleton identity 0))))) = (Num (- 1), Num 3, Num 0)"
  by (simp add: twin_skeleton_def mat_eval)

theorem same_name_one_bone_last_visit_wins_witness:
  "\<exists>v v'. loadParsed newViewer twin_result = Inr v \<and> updateFrame v (Num 0) = Inr v'
           \<and> length (filter (\<lambda>(k, b). k = Some ''Arm'') (boneTable v')) = 1
           \<and> map_of (positions v') (Some ''Arm'') = Some (Num (- 1), Num 3, Num 0)"
proof -
  have 1: "\<forall>m\<in>set (preorder (p_skeleton twin_result)). type m \<noteq> ''End Site''"
    by (simp add: twin_result_def twin_skeleton_def)
  have 2: "frameAt (frames (p_motionData twin_result)) (Num 0) = Some [Num 0, Num 2, Num 3]"
    by (simp add: twin_result_def frameAt_def nth_opt_def)
  have 3: "Node (Some ''Arm'') ''JOINT'' (Num (- 1), Num 0, Num 0) [''Yposition''] []
             \<in> set (preorder (p_skeleton twin_result))"
    by (simp add: twin_result_def twin_skeleton_def)
  have 4: "p_skeleton twin_result = twin_skeleton" by (simp add: twin_result_def)
  from same_name_one_bone_last_visit_wins[OF 1 2 3, of "Some ''Arm''"]
  show ?thesis
    by (simp add: 4 twin_last)
qed

section \<open>End Sites\<close>




end
